theory Spec2Isabelle
  imports Main "HOL-Library.Word"
begin

unbundle bit_operations_syntax

section \<open>The ARM thread state (PLCrashAsyncThread_arm.c)\<close>

subsection \<open>Register identifiers\<close>

text \<open>
  The enumerators \<open>PLCRASH_ARM_R0\<close> ... \<open>PLCRASH_ARM_CPSR\<close> and the constant
  \<open>PLCRASH_ARM_LAST_REG\<close> are declared in PLCrashAsyncThread.h, which is not among the
  sources. Their integer values are therefore a parameter: an \<open>arm_enum\<close> gives the value of
  every enumerator. A \<open>plcrash_regnum_t\<close> is a natural number.
\<close>

datatype arm_reg =
    PLCRASH_ARM_R0 | PLCRASH_ARM_R1 | PLCRASH_ARM_R2 | PLCRASH_ARM_R3
  | PLCRASH_ARM_R4 | PLCRASH_ARM_R5 | PLCRASH_ARM_R6 | PLCRASH_ARM_R7
  | PLCRASH_ARM_R8 | PLCRASH_ARM_R9 | PLCRASH_ARM_R10 | PLCRASH_ARM_R11
  | PLCRASH_ARM_R12 | PLCRASH_ARM_SP | PLCRASH_ARM_LR | PLCRASH_ARM_PC
  | PLCRASH_ARM_CPSR

record arm_enum =
  regnum :: "arm_reg \<Rightarrow> nat"
  PLCRASH_ARM_LAST_REG :: nat

definition arm_regs :: "arm_reg list" where
  "arm_regs =
    [PLCRASH_ARM_R0, PLCRASH_ARM_R1, PLCRASH_ARM_R2, PLCRASH_ARM_R3,
     PLCRASH_ARM_R4, PLCRASH_ARM_R5, PLCRASH_ARM_R6, PLCRASH_ARM_R7,
     PLCRASH_ARM_R8, PLCRASH_ARM_R9, PLCRASH_ARM_R10, PLCRASH_ARM_R11,
     PLCRASH_ARM_R12, PLCRASH_ARM_SP, PLCRASH_ARM_LR, PLCRASH_ARM_PC,
     PLCRASH_ARM_CPSR]"

text \<open>
  What the C compiler and the code require of the enumeration: the seventeen case labels of
  the \<open>switch\<close> in \<open>plcrash_async_thread_state_get_reg\<close> are pairwise distinct, no register
  lies beyond \<open>PLCRASH_ARM_LAST_REG\<close>, and \<open>1 << regnum\<close> is a defined shift of a 32-bit
  \<open>int\<close>.
\<close>

definition arm_enum_ok :: "arm_enum \<Rightarrow> bool" where
  "arm_enum_ok E \<longleftrightarrow>
     distinct (map (regnum E) arm_regs) \<and>
     list_all (\<lambda>r. regnum E r \<le> PLCRASH_ARM_LAST_REG E) arm_regs \<and>
     PLCRASH_ARM_LAST_REG E < 32"

text \<open>An enumeration that numbers the registers like the DWARF table does, CPSR last.\<close>

definition arm_enum_sequential :: arm_enum where
  "arm_enum_sequential =
     \<lparr> regnum = (\<lambda>r. case r of
          PLCRASH_ARM_R0 \<Rightarrow> 0 | PLCRASH_ARM_R1 \<Rightarrow> 1 | PLCRASH_ARM_R2 \<Rightarrow> 2
        | PLCRASH_ARM_R3 \<Rightarrow> 3 | PLCRASH_ARM_R4 \<Rightarrow> 4 | PLCRASH_ARM_R5 \<Rightarrow> 5
        | PLCRASH_ARM_R6 \<Rightarrow> 6 | PLCRASH_ARM_R7 \<Rightarrow> 7 | PLCRASH_ARM_R8 \<Rightarrow> 8
        | PLCRASH_ARM_R9 \<Rightarrow> 9 | PLCRASH_ARM_R10 \<Rightarrow> 10 | PLCRASH_ARM_R11 \<Rightarrow> 11
        | PLCRASH_ARM_R12 \<Rightarrow> 12 | PLCRASH_ARM_SP \<Rightarrow> 13 | PLCRASH_ARM_LR \<Rightarrow> 14
        | PLCRASH_ARM_PC \<Rightarrow> 15 | PLCRASH_ARM_CPSR \<Rightarrow> 16),
       PLCRASH_ARM_LAST_REG = 16 \<rparr>"

subsection \<open>The thread state\<close>

text \<open>
  \<open>plcrash_async_thread_state_t\<close>, as far as this file uses it: the bitset \<open>valid_regs\<close>
  and the fields \<open>__r[13]\<close>, \<open>__sp\<close>, \<open>__lr\<close>, \<open>__pc\<close>, \<open>__cpsr\<close> of
  \<open>arm_state.thread\<close>. The array is read and written at the constant indices 0..12 only and
  is a function of the index. A register value is the 32-bit content of its field.
\<close>

record plcrash_async_thread_state =
  valid_regs :: "32 word"
  arm_r :: "nat \<Rightarrow> 32 word"
  arm_sp :: "32 word"
  arm_lr :: "32 word"
  arm_pc :: "32 word"
  arm_cpsr :: "32 word"

datatype trap = Trap

text \<open>\<open>plcrash_async_thread_state_get_reg\<close>: the \<open>switch\<close> over the register number, each
  case a \<open>RETGEN\<close>, the default \<open>__builtin_trap()\<close>.\<close>

definition plcrash_async_thread_state_get_reg ::
  "arm_enum \<Rightarrow> plcrash_async_thread_state \<Rightarrow> nat \<Rightarrow> trap + 32 word" where
  "plcrash_async_thread_state_get_reg E ts n =
    (if n = regnum E PLCRASH_ARM_R0 then Inr (arm_r ts 0)
     else if n = regnum E PLCRASH_ARM_R1 then Inr (arm_r ts 1)
     else if n = regnum E PLCRASH_ARM_R2 then Inr (arm_r ts 2)
     else if n = regnum E PLCRASH_ARM_R3 then Inr (arm_r ts 3)
     else if n = regnum E PLCRASH_ARM_R4 then Inr (arm_r ts 4)
     else if n = regnum E PLCRASH_ARM_R5 then Inr (arm_r ts 5)
     else if n = regnum E PLCRASH_ARM_R6 then Inr (arm_r ts 6)
     else if n = regnum E PLCRASH_ARM_R7 then Inr (arm_r ts 7)
     else if n = regnum E PLCRASH_ARM_R8 then Inr (arm_r ts 8)
     else if n = regnum E PLCRASH_ARM_R9 then Inr (arm_r ts 9)
     else if n = regnum E PLCRASH_ARM_R10 then Inr (arm_r ts 10)
     else if n = regnum E PLCRASH_ARM_R11 then Inr (arm_r ts 11)
     else if n = regnum E PLCRASH_ARM_R12 then Inr (arm_r ts 12)
     else if n = regnum E PLCRASH_ARM_SP then Inr (arm_sp ts)
     else if n = regnum E PLCRASH_ARM_LR then Inr (arm_lr ts)
     else if n = regnum E PLCRASH_ARM_PC then Inr (arm_pc ts)
     else if n = regnum E PLCRASH_ARM_CPSR then Inr (arm_cpsr ts)
     else Inl Trap)"

text \<open>\<open>SETGEN\<close>: \<open>ts->valid_regs |= 1<<regnum\<close>, then the store into the field.\<close>

definition SETGEN_valid :: "plcrash_async_thread_state \<Rightarrow> nat \<Rightarrow> plcrash_async_thread_state" where
  "SETGEN_valid ts n = ts\<lparr>valid_regs := valid_regs ts OR push_bit n 1\<rparr>"

definition plcrash_async_thread_state_set_reg ::
  "arm_enum \<Rightarrow> plcrash_async_thread_state \<Rightarrow> nat \<Rightarrow> 32 word \<Rightarrow> trap + plcrash_async_thread_state" where
  "plcrash_async_thread_state_set_reg E ts n v =
    (if n = regnum E PLCRASH_ARM_R0 then Inr ((SETGEN_valid ts n)\<lparr>arm_r := (arm_r ts)(0 := v)\<rparr>)
     else if n = regnum E PLCRASH_ARM_R1 then Inr ((SETGEN_valid ts n)\<lparr>arm_r := (arm_r ts)(1 := v)\<rparr>)
     else if n = regnum E PLCRASH_ARM_R2 then Inr ((SETGEN_valid ts n)\<lparr>arm_r := (arm_r ts)(2 := v)\<rparr>)
     else if n = regnum E PLCRASH_ARM_R3 then Inr ((SETGEN_valid ts n)\<lparr>arm_r := (arm_r ts)(3 := v)\<rparr>)
     else if n = regnum E PLCRASH_ARM_R4 then Inr ((SETGEN_valid ts n)\<lparr>arm_r := (arm_r ts)(4 := v)\<rparr>)
     else if n = regnum E PLCRASH_ARM_R5 then Inr ((SETGEN_valid ts n)\<lparr>arm_r := (arm_r ts)(5 := v)\<rparr>)
     else if n = regnum E PLCRASH_ARM_R6 then Inr ((SETGEN_valid ts n)\<lparr>arm_r := (arm_r ts)(6 := v)\<rparr>)
     else if n = regnum E PLCRASH_ARM_R7 then Inr ((SETGEN_valid ts n)\<lparr>arm_r := (arm_r ts)(7 := v)\<rparr>)
     else if n = regnum E PLCRASH_ARM_R8 then Inr ((SETGEN_valid ts n)\<lparr>arm_r := (arm_r ts)(8 := v)\<rparr>)
     else if n = regnum E PLCRASH_ARM_R9 then Inr ((SETGEN_valid ts n)\<lparr>arm_r := (arm_r ts)(9 := v)\<rparr>)
     else if n = regnum E PLCRASH_ARM_R10 then Inr ((SETGEN_valid ts n)\<lparr>arm_r := (arm_r ts)(10 := v)\<rparr>)
     else if n = regnum E PLCRASH_ARM_R11 then Inr ((SETGEN_valid ts n)\<lparr>arm_r := (arm_r ts)(11 := v)\<rparr>)
     else if n = regnum E PLCRASH_ARM_R12 then Inr ((SETGEN_valid ts n)\<lparr>arm_r := (arm_r ts)(12 := v)\<rparr>)
     else if n = regnum E PLCRASH_ARM_SP then Inr ((SETGEN_valid ts n)\<lparr>arm_sp := v\<rparr>)
     else if n = regnum E PLCRASH_ARM_LR then Inr ((SETGEN_valid ts n)\<lparr>arm_lr := v\<rparr>)
     else if n = regnum E PLCRASH_ARM_PC then Inr ((SETGEN_valid ts n)\<lparr>arm_pc := v\<rparr>)
     else if n = regnum E PLCRASH_ARM_CPSR then Inr ((SETGEN_valid ts n)\<lparr>arm_cpsr := v\<rparr>)
     else Inl Trap)"

definition plcrash_async_thread_state_get_reg_count :: "arm_enum \<Rightarrow> nat" where
  "plcrash_async_thread_state_get_reg_count E = PLCRASH_ARM_LAST_REG E + 1"

text \<open>
  Modelled from the spec: \<open>plcrash_async_thread_state_has_reg\<close> and
  \<open>plcrash_async_thread_state_clear_reg\<close> are defined in PLCrashAsyncThread.c, which is not
  among the sources. The spec gives \<open>has(regnum) \<rightarrow> bool\<close> and \<open>clear(regnum)\<close> over the
  bitset \<open>valid_regs\<close>, "bit i set \<open>\<Leftrightarrow>\<close> register i holds a meaningful value"; the bit of a
  register is the one \<open>SETGEN\<close> sets, \<open>1 << regnum\<close>.
\<close>

definition plcrash_async_thread_state_has_reg :: "plcrash_async_thread_state \<Rightarrow> nat \<Rightarrow> bool" where
  "plcrash_async_thread_state_has_reg ts n \<longleftrightarrow> valid_regs ts AND push_bit n 1 \<noteq> 0"

definition plcrash_async_thread_state_clear_reg ::
  "plcrash_async_thread_state \<Rightarrow> nat \<Rightarrow> plcrash_async_thread_state" where
  "plcrash_async_thread_state_clear_reg ts n = ts\<lparr>valid_regs := valid_regs ts AND NOT (push_bit n 1)\<rparr>"

subsection \<open>Clearing the volatile registers\<close>

definition arm_nonvolatile_regs :: "arm_reg list" where
  "arm_nonvolatile_regs =
    [PLCRASH_ARM_R4, PLCRASH_ARM_R5, PLCRASH_ARM_R6, PLCRASH_ARM_R7,
     PLCRASH_ARM_R8, PLCRASH_ARM_R10, PLCRASH_ARM_R11]"

definition arm_nonvolatile_registers :: "arm_enum \<Rightarrow> nat list" where
  "arm_nonvolatile_registers E = map (regnum E) arm_nonvolatile_regs"

text \<open>The inner loop: the search of the preservation table, leaving at the first hit.\<close>

fun preserved :: "nat list \<Rightarrow> nat \<Rightarrow> bool" where
  "preserved [] reg = False"
| "preserved (x # xs) reg = (if x = reg then True else preserved xs reg)"

text \<open>One iteration of the outer loop, for the register number \<open>reg\<close>.\<close>

definition clear_volatile_iter ::
  "arm_enum \<Rightarrow> plcrash_async_thread_state \<Rightarrow> nat \<Rightarrow> plcrash_async_thread_state" where
  "clear_volatile_iter E ts reg =
    (if \<not> plcrash_async_thread_state_has_reg ts reg then ts
     else if \<not> preserved (arm_nonvolatile_registers E) reg
       then plcrash_async_thread_state_clear_reg ts reg
     else ts)"

definition plcrash_async_thread_state_clear_volatile_regs ::
  "arm_enum \<Rightarrow> plcrash_async_thread_state \<Rightarrow> plcrash_async_thread_state" where
  "plcrash_async_thread_state_clear_volatile_regs E ts =
     foldl (clear_volatile_iter E) ts [0 ..< plcrash_async_thread_state_get_reg_count E]"

subsection \<open>The DWARF register table\<close>

definition arm_dwarf_regs :: "(arm_reg \<times> 64 word) list" where
  "arm_dwarf_regs =
    [(PLCRASH_ARM_R0, 0), (PLCRASH_ARM_R1, 1), (PLCRASH_ARM_R2, 2), (PLCRASH_ARM_R3, 3),
     (PLCRASH_ARM_R4, 4), (PLCRASH_ARM_R5, 5), (PLCRASH_ARM_R6, 6), (PLCRASH_ARM_R7, 7),
     (PLCRASH_ARM_R8, 8), (PLCRASH_ARM_R9, 9), (PLCRASH_ARM_R10, 10), (PLCRASH_ARM_R11, 11),
     (PLCRASH_ARM_R12, 12), (PLCRASH_ARM_SP, 13), (PLCRASH_ARM_LR, 14), (PLCRASH_ARM_PC, 15)]"

definition arm_dwarf_table :: "arm_enum \<Rightarrow> (nat \<times> 64 word) list" where
  "arm_dwarf_table E = map (\<lambda>(r, d). (regnum E r, d)) arm_dwarf_regs"

text \<open>Both mapping functions scan the table from its first entry and return at the first
  match: \<open>Some\<close> is \<open>true\<close> with the value written to the output parameter, \<open>None\<close> is
  \<open>false\<close> with the output parameter untouched.\<close>

fun scan_regnum :: "(nat \<times> 64 word) list \<Rightarrow> nat \<Rightarrow> 64 word option" where
  "scan_regnum [] n = None"
| "scan_regnum ((rn, dv) # tbl) n = (if rn = n then Some dv else scan_regnum tbl n)"

fun scan_dwarf :: "(nat \<times> 64 word) list \<Rightarrow> 64 word \<Rightarrow> nat option" where
  "scan_dwarf [] d = None"
| "scan_dwarf ((rn, dv) # tbl) d = (if dv = d then Some rn else scan_dwarf tbl d)"

definition plcrash_async_thread_state_map_reg_to_dwarf :: "arm_enum \<Rightarrow> nat \<Rightarrow> 64 word option" where
  "plcrash_async_thread_state_map_reg_to_dwarf E n = scan_regnum (arm_dwarf_table E) n"

definition plcrash_async_thread_state_map_dwarf_to_reg :: "arm_enum \<Rightarrow> 64 word \<Rightarrow> nat option" where
  "plcrash_async_thread_state_map_dwarf_to_reg E d = scan_dwarf (arm_dwarf_table E) d"


text \<open>For stating what a register read returns: the field that \<open>RETGEN\<close> names for
  each register.\<close>

definition arm_reg_field :: "plcrash_async_thread_state \<Rightarrow> arm_reg \<Rightarrow> 32 word" where
  "arm_reg_field ts r = (case r of
      PLCRASH_ARM_R0 \<Rightarrow> arm_r ts 0 | PLCRASH_ARM_R1 \<Rightarrow> arm_r ts 1 | PLCRASH_ARM_R2 \<Rightarrow> arm_r ts 2
    | PLCRASH_ARM_R3 \<Rightarrow> arm_r ts 3 | PLCRASH_ARM_R4 \<Rightarrow> arm_r ts 4 | PLCRASH_ARM_R5 \<Rightarrow> arm_r ts 5
    | PLCRASH_ARM_R6 \<Rightarrow> arm_r ts 6 | PLCRASH_ARM_R7 \<Rightarrow> arm_r ts 7 | PLCRASH_ARM_R8 \<Rightarrow> arm_r ts 8
    | PLCRASH_ARM_R9 \<Rightarrow> arm_r ts 9 | PLCRASH_ARM_R10 \<Rightarrow> arm_r ts 10 | PLCRASH_ARM_R11 \<Rightarrow> arm_r ts 11
    | PLCRASH_ARM_R12 \<Rightarrow> arm_r ts 12 | PLCRASH_ARM_SP \<Rightarrow> arm_sp ts | PLCRASH_ARM_LR \<Rightarrow> arm_lr ts
    | PLCRASH_ARM_PC \<Rightarrow> arm_pc ts | PLCRASH_ARM_CPSR \<Rightarrow> arm_cpsr ts)"

text \<open>Two thread states for the examples: one with every register valid, one with none.\<close>

definition ts_all_valid :: plcrash_async_thread_state where
  "ts_all_valid =
     \<lparr> valid_regs = 0x1FFFF, arm_r = (\<lambda>i. 0x100 + of_nat i), arm_sp = 0x2FFF0000,
       arm_lr = 0x1234, arm_pc = 0x1000, arm_cpsr = 0x10 \<rparr>"

definition ts_none_valid :: plcrash_async_thread_state where
  "ts_none_valid =
     \<lparr> valid_regs = 0, arm_r = (\<lambda>i. 0x2A), arm_sp = 0, arm_lr = 0, arm_pc = 0, arm_cpsr = 0 \<rparr>"

section \<open>Objective-C metadata parsing (PLCrashAsyncObjCSection.c)\<close>

text \<open>
  \<open>pl_vm_address_t\<close> and \<open>pl_vm_size_t\<close> are declared in PLCrashAsync.h, which is not among
  the sources; they are unsigned integers of one width, 32 or 64 bits by the platform. The
  width is the type parameter \<open>'a\<close>: an address and a size are an \<open>'a word\<close>. The records
  below take the type of addresses, \<open>'w\<close>, as their parameter; the functions use them at
  \<open>'a word\<close>.

  \<open>plcrash_error_t\<close> is declared there too: its values are the codes this file names and the
  ones the spec lists (Success, NotFound, Invalid, AccessDenied, Internal, Unknown).
\<close>

datatype plcrash_error =
    PLCRASH_ESUCCESS | PLCRASH_EUNKNOWN | PLCRASH_ENOTFOUND
  | PLCRASH_EINVAL | PLCRASH_EACCESS | PLCRASH_EINTERNAL

subsection \<open>The context object and its class cache\<close>

text \<open>A memory object, with the two fields this file reads.\<close>

record 'w plcrash_async_mobject =
  task_address :: 'w
  mobj_length :: 'w

text \<open>
  \<open>plcrash_async_objc_cache_t\<close>, with the fields this file uses. \<open>lastImage\<close> is a pointer
  to an image and the two cache arrays are pointers to \<open>classCacheSize\<close> elements each;
  \<open>None\<close> is \<open>NULL\<close>.
\<close>

record 'w plcrash_async_objc_cache =
  gotObjC2Info :: bool
  lastImage :: "nat option"
  objcConstMobj :: "'w plcrash_async_mobject"
  objcConstMobjInitialized :: bool
  classMobj :: "'w plcrash_async_mobject"
  classMobjInitialized :: bool
  objcDataMobj :: "'w plcrash_async_mobject"
  objcDataMobjInitialized :: bool
  classCacheSize :: nat
  classCacheKeys :: "'w list option"
  classCacheValues :: "'w list option"

text \<open>
  The states of the cache arrays that the code produces: both pointers \<open>NULL\<close> and the size
  0 (after \<open>plcrash_async_objc_cache_init\<close>, and after a failed allocation), or both arrays
  allocated with \<open>classCacheSize\<close> elements, the size not 0. Outside these states the C code
  divides by zero or dereferences \<open>NULL\<close>; every statement below about the cache assumes
  \<open>cache_wf\<close>, which the operations preserve.
\<close>

definition cache_wf :: "'a::len word plcrash_async_objc_cache \<Rightarrow> bool" where
  "cache_wf c \<longleftrightarrow>
     (case (classCacheKeys c, classCacheValues c) of
        (None, None) \<Rightarrow> classCacheSize c = 0
      | (Some ks, Some vs) \<Rightarrow>
          0 < classCacheSize c \<and> length ks = classCacheSize c \<and> length vs = classCacheSize c
      | _ \<Rightarrow> False)"

definition cache_index :: "'a::len word plcrash_async_objc_cache \<Rightarrow> 'a word \<Rightarrow> nat" where
  "cache_index context key = unat (drop_bit 2 key) mod classCacheSize context"

definition cache_lookup :: "'a::len word plcrash_async_objc_cache \<Rightarrow> 'a word \<Rightarrow> 'a word" where
  "cache_lookup context key =
    (if 0 < classCacheSize context then
       (case (classCacheKeys context, classCacheValues context) of
          (Some ks, Some vs) \<Rightarrow>
            (let index = cache_index context key
             in if ks ! index = key then vs ! index else 0)
        | _ \<Rightarrow> 0)
     else 0)"

text \<open>The second half of \<open>cache_set\<close>: the bucket of the key is written only when its key
  is 0.\<close>

definition cache_store ::
  "'a::len word plcrash_async_objc_cache \<Rightarrow> 'a word \<Rightarrow> 'a word \<Rightarrow> 'a word plcrash_async_objc_cache" where
  "cache_store context key val =
    (case (classCacheKeys context, classCacheValues context) of
       (Some ks, Some vs) \<Rightarrow>
         (let index = cache_index context key
          in if ks ! index = 0
             then context\<lparr>classCacheKeys := Some (ks[index := key]),
                          classCacheValues := Some (vs[index := val])\<rparr>
             else context)
     | _ \<Rightarrow> context)"

text \<open>
  \<open>cache_set\<close>. The first argument is the outcome of \<open>vm_allocate\<close>, should the call be
  made: \<open>True\<close> for \<open>KERN_SUCCESS\<close>. Memory from \<open>vm_allocate\<close> is zero-filled, which the
  test \<open>classCacheKeys[index] == 0\<close> for a free bucket relies on. The value array starts
  \<open>size\<close> elements after the key array, in the same allocation.
\<close>

definition cache_set ::
  "bool \<Rightarrow> 'a::len word plcrash_async_objc_cache \<Rightarrow> 'a word \<Rightarrow> 'a word \<Rightarrow> 'a word plcrash_async_objc_cache" where
  "cache_set vm_allocate_success context key val =
    (case classCacheKeys context of
       None \<Rightarrow>
         (if \<not> vm_allocate_success then context\<lparr>classCacheSize := 0\<rparr>
          else cache_store
                 (context\<lparr>classCacheSize := 1024,
                           classCacheKeys := Some (replicate 1024 0),
                           classCacheValues := Some (replicate 1024 0)\<rparr>) key val)
     | Some ks \<Rightarrow> cache_store context key val)"

definition plcrash_async_objc_cache_init ::
  "'a::len word plcrash_async_objc_cache \<Rightarrow> plcrash_error \<times> 'a word plcrash_async_objc_cache" where
  "plcrash_async_objc_cache_init cache =
     (PLCRASH_ESUCCESS,
      cache\<lparr>gotObjC2Info := False, lastImage := None, objcConstMobjInitialized := False,
             classMobjInitialized := False, objcDataMobjInitialized := False,
             classCacheSize := 0, classCacheKeys := None, classCacheValues := None\<rparr>)"

subsection \<open>Images, task memory and the mapped sections\<close>

text \<open>
  A Mach-O image (\<open>plcrash_async_macho_t\<close>, declared in an absent header), with what this
  file uses of it: its address (images are compared as pointers), the \<open>m64\<close> flag and the
  byte-order functions \<open>byteorder->swap32\<close> and \<open>byteorder->swap64\<close>.
\<close>

record plcrash_async_macho =
  image_ptr :: nat
  m64 :: bool
  swap32 :: "32 word \<Rightarrow> 32 word"
  swap64 :: "64 word \<Rightarrow> 64 word"

text \<open>
  The structures of the ObjC2 metadata, with the fields the parser reads. The parser holds
  a 32-bit and a 64-bit struct pointer to the same address and reads through the one that
  \<open>m64\<close> selects; a \<open>_ptrs\<close> record gives what both pointers read.
\<close>

record pl_objc2_class_ptrs =
  class_32_isa :: "32 word"
  class_32_data_rw :: "32 word"
  class_64_isa :: "64 word"
  class_64_data_rw :: "64 word"

record pl_objc2_class_data_rw_32 =
  rw_32_flags :: "32 word"
  rw_32_data_ro :: "32 word"

record pl_objc2_class_data_rw_64 =
  rw_64_flags :: "32 word"
  rw_64_data_ro :: "64 word"

record pl_objc2_class_data_ro_ptrs =
  ro_32_name :: "32 word"
  ro_32_baseMethods :: "32 word"
  ro_64_name :: "64 word"
  ro_64_baseMethods :: "64 word"

record pl_objc2_method_ptrs =
  method_32_name :: "32 word"
  method_32_imp :: "32 word"
  method_64_name :: "64 word"
  method_64_imp :: "64 word"

record pl_objc2_list_header =
  header_entsize :: "32 word"
  header_count :: "32 word"

text \<open>
  A method as the parser hands it to the callback: \<open>isMetaClass\<close>, the class name, the
  method name and the IMP.
\<close>

type_synonym 'w objc_method = "bool \<times> string \<times> string \<times> 'w"

type_synonym ('w, 'c) plcrash_async_objc_found_method_cb =
  "bool \<Rightarrow> string \<Rightarrow> string \<Rightarrow> 'w \<Rightarrow> 'c \<Rightarrow> 'c"

text \<open>
  The services the parser calls and this file does not define; they are the parameter
  \<open>env\<close> of every function below.
  \<^item> \<open>macho_map_section image seg sect\<close> is \<open>plcrash_async_macho_map_section\<close>: the error
    code and the memory object.
  \<^item> \<open>mobject_remap_address mobj addr off len\<close> is \<open>plcrash_async_mobject_remap_address\<close>:
    a local pointer, or \<open>None\<close> for \<open>NULL\<close>. The \<open>local_\<close> functions give what the parser
    reads through such a pointer: the i-th class pointer of the class list, a class, a
    \<open>class_ro\<close>, a list header, a method.
  \<^item> \<open>read_data_rw_32\<close>, \<open>read_data_rw_64\<close> and \<open>read_data_ro\<close> are
    \<open>plcrash_async_read_addr\<close> at an address and a length, by the buffer it fills: the error
    code and the content of the buffer.
  \<^item> \<open>macho_string_init image addr\<close> is \<open>plcrash_async_macho_string_init\<close>: the error code
    and the string.
  \<^item> \<open>vm_allocate_success\<close> is the outcome of \<open>vm_allocate\<close> during the run.
  \<^item> \<open>objc1_module_info image\<close> is a run of \<open>pl_async_objc_parse_from_module_info\<close>, the
    ObjC1 parser, on an image: the methods it hands to its callback, in order, and the error
    code it returns. The ObjC1 parser reads the image and task memory only; it neither reads
    nor writes the context object.
\<close>

record 'w objc_env =
  macho_map_section ::
    "plcrash_async_macho \<Rightarrow> string \<Rightarrow> string \<Rightarrow> plcrash_error \<times> 'w plcrash_async_mobject"
  mobject_remap_address :: "'w plcrash_async_mobject \<Rightarrow> 'w \<Rightarrow> int \<Rightarrow> 'w \<Rightarrow> nat option"
  local_class_ptr_32 :: "nat \<Rightarrow> nat \<Rightarrow> 32 word"
  local_class_ptr_64 :: "nat \<Rightarrow> nat \<Rightarrow> 64 word"
  local_class :: "nat \<Rightarrow> pl_objc2_class_ptrs"
  local_data_ro :: "nat \<Rightarrow> pl_objc2_class_data_ro_ptrs"
  local_list_header :: "nat \<Rightarrow> pl_objc2_list_header"
  local_method :: "nat \<Rightarrow> pl_objc2_method_ptrs"
  read_data_rw_32 :: "'w \<Rightarrow> 'w \<Rightarrow> plcrash_error \<times> pl_objc2_class_data_rw_32"
  read_data_rw_64 :: "'w \<Rightarrow> 'w \<Rightarrow> plcrash_error \<times> pl_objc2_class_data_rw_64"
  read_data_ro :: "'w \<Rightarrow> 'w \<Rightarrow> plcrash_error \<times> pl_objc2_class_data_ro_ptrs"
  macho_string_init :: "plcrash_async_macho \<Rightarrow> 'w \<Rightarrow> plcrash_error \<times> string"
  vm_allocate_success :: bool
  objc1_module_info :: "plcrash_async_macho \<Rightarrow> 'w objc_method list \<times> plcrash_error"

definition kDataSegmentName :: string where "kDataSegmentName = ''__DATA''"
definition kClassListSectionName :: string where "kClassListSectionName = ''__objc_classlist''"
definition kObjCConstSectionName :: string where "kObjCConstSectionName = ''__objc_const''"
definition kObjCDataSectionName :: string where "kObjCDataSectionName = ''__objc_data''"

definition RW_REALIZED :: "32 word" where "RW_REALIZED = push_bit 31 1"
definition RW_COPIED_RO :: "32 word" where "RW_COPIED_RO = push_bit 27 1"

definition free_mapped_sections ::
  "'a::len word plcrash_async_objc_cache \<Rightarrow> 'a word plcrash_async_objc_cache" where
  "free_mapped_sections context =
    (let c1 = (if objcConstMobjInitialized context
               then context\<lparr>objcConstMobjInitialized := False\<rparr> else context);
         c2 = (if classMobjInitialized c1 then c1\<lparr>classMobjInitialized := False\<rparr> else c1)
     in if objcDataMobjInitialized c2 then c2\<lparr>objcDataMobjInitialized := False\<rparr> else c2)"

text \<open>\<open>map_sections\<close>. A memory object of the context is written when its mapping
  succeeds.\<close>

definition map_sections ::
  "'a::len word objc_env \<Rightarrow> plcrash_async_macho \<Rightarrow> 'a word plcrash_async_objc_cache
     \<Rightarrow> plcrash_error \<times> 'a word plcrash_async_objc_cache" where
  "map_sections env img context =
    (if Some (image_ptr img) = lastImage context then (PLCRASH_ESUCCESS, context)
     else
       let c0 = (free_mapped_sections context)\<lparr>lastImage := None\<rparr>
       in case macho_map_section env img kDataSegmentName kObjCConstSectionName of
            (err1, m1) \<Rightarrow>
         if err1 \<noteq> PLCRASH_ESUCCESS then (err1, c0)
         else
           let c1 = c0\<lparr>objcConstMobj := m1, objcConstMobjInitialized := True\<rparr>
           in case macho_map_section env img kDataSegmentName kClassListSectionName of
                (err2, m2) \<Rightarrow>
             if err2 \<noteq> PLCRASH_ESUCCESS then (err2, c1)
             else
               let c2 = c1\<lparr>classMobj := m2, classMobjInitialized := True\<rparr>
               in case macho_map_section env img kDataSegmentName kObjCDataSectionName of
                    (err3, m3) \<Rightarrow>
                 if err3 \<noteq> PLCRASH_ESUCCESS then (err3, c2)
                 else (err3, c2\<lparr>objcDataMobj := m3, objcDataMobjInitialized := True,
                                  lastImage := Some (image_ptr img)\<rparr>))"

subsection \<open>Parsing one ObjC2 class\<close>

text \<open>
  The loop over the methods of a list (\<open>for (uint32_t i = 0; i < count; i++)\<close>): the
  argument that counts down is the number of iterations left, \<open>cursor\<close> is the local pointer
  to the current entry, \<open>err\<close> is the variable \<open>err\<close> of the function. A method name that
  cannot be read leaves the loop, and the function, with the error.
\<close>

fun objc2_method_loop ::
  "'a::len word objc_env \<Rightarrow> plcrash_async_macho \<Rightarrow> bool \<Rightarrow> string
     \<Rightarrow> ('a word, 'c) plcrash_async_objc_found_method_cb
     \<Rightarrow> nat \<Rightarrow> nat \<Rightarrow> nat \<Rightarrow> plcrash_error \<Rightarrow> 'c \<Rightarrow> plcrash_error \<times> 'c" where
  "objc2_method_loop env img isMetaClass className callback entsize 0 cursor err ctx = (err, ctx)"
| "objc2_method_loop env img isMetaClass className callback entsize (Suc n) cursor err ctx =
    (let m = local_method env cursor;
         methodNamePtr = (if m64 img then ucast (swap64 img (method_64_name m))
                          else ucast (swap32 img (method_32_name m)))
     in case macho_string_init env img methodNamePtr of (err1, methodName) \<Rightarrow>
          if err1 \<noteq> PLCRASH_ESUCCESS then (err1, ctx)
          else
            let imp = (if m64 img then ucast (swap64 img (method_64_imp m))
                       else ucast (swap32 img (method_32_imp m)))
            in objc2_method_loop env img isMetaClass className callback entsize n
                 (cursor + entsize) err1 (callback isMetaClass className methodName imp ctx))"

text \<open>
  The part of \<open>pl_async_objc_parse_objc2_class\<close> after the \<open>class_ro\<close> data has been looked
  for, from "Fetch the pointer to the class name" on. \<open>classDataRO\<close> is what the pointers
  \<open>classDataRO_32\<close> and \<open>classDataRO_64\<close> read, \<open>None\<close> when both are still \<open>NULL\<close>. The
  result \<open>None\<close> is a fault: the function dereferences \<open>NULL\<close> and does not return. Otherwise
  the result is the error code returned, the context object and the callback's context.
\<close>

definition objc2_class_ro_methods ::
  "'a::len word objc_env \<Rightarrow> plcrash_async_macho \<Rightarrow> 'a word plcrash_async_objc_cache
     \<Rightarrow> pl_objc2_class_data_ro_ptrs option \<Rightarrow> bool
     \<Rightarrow> ('a word, 'c) plcrash_async_objc_found_method_cb \<Rightarrow> 'c
     \<Rightarrow> (plcrash_error \<times> 'a word plcrash_async_objc_cache \<times> 'c) option" where
  "objc2_class_ro_methods env img objcContext classDataRO isMetaClass callback ctx =
    (case classDataRO of
       None \<Rightarrow> None
     | Some ro \<Rightarrow>
         let classNamePtr = (if m64 img then ucast (swap64 img (ro_64_name ro))
                             else ucast (swap32 img (ro_32_name ro)))
         in case macho_string_init env img classNamePtr of (err, className) \<Rightarrow>
           if err \<noteq> PLCRASH_ESUCCESS then Some (err, objcContext, ctx)
           else
             let methodsPtr = (if m64 img then ucast (swap64 img (ro_64_baseMethods ro))
                               else ucast (swap32 img (ro_32_baseMethods ro)))
             in if methodsPtr = 0 then Some (err, objcContext, ctx)
                else
                  case mobject_remap_address env (objcConstMobj objcContext) methodsPtr 0 8 of
                    None \<Rightarrow> Some (err, objcContext, ctx)
                  | Some header \<Rightarrow>
                      let entsize = swap32 img (header_entsize (local_list_header env header))
                                      AND NOT 3;
                          count = swap32 img (header_count (local_list_header env header));
                          methodListStart = methodsPtr + 8;
                          methodListLength = ucast entsize * ucast count
                      in case mobject_remap_address env (objcConstMobj objcContext)
                                methodListStart 0 methodListLength of
                           None \<Rightarrow> Some (err, objcContext, ctx)
                         | Some cursor \<Rightarrow>
                             (case objc2_method_loop env img isMetaClass className callback
                                     (unat entsize) (unat count) cursor err ctx of
                                (err1, ctx1) \<Rightarrow> Some (err1, objcContext, ctx1)))"

text \<open>
  \<open>pl_async_objc_parse_objc2_class\<close>. \<open>cls\<close> is what the pointers \<open>class_32\<close> and
  \<open>class_64\<close> read. Three of its local values come first: \<open>dataPtr\<close>, the class's
  \<open>data_rw\<close> pointer with its low two bits masked off; \<open>class_ro_length\<close>, the size of a
  \<open>class_ro\<close> structure (40 or 72 bytes); and the read of the \<open>class_rw\<close> structure (12 or
  16 bytes), which gives the error code, the \<open>flags\<close> field as it is in memory and the
  \<open>data_ro\<close> pointer.
\<close>

definition objc2_class_dataPtr :: "plcrash_async_macho \<Rightarrow> pl_objc2_class_ptrs \<Rightarrow> 'a::len word" where
  "objc2_class_dataPtr img cls =
     (if m64 img then ucast (swap64 img (class_64_data_rw cls))
      else ucast (swap32 img (class_32_data_rw cls))) AND NOT 3"

definition objc2_class_ro_length :: "plcrash_async_macho \<Rightarrow> 'a::len word" where
  "objc2_class_ro_length img = (if m64 img then 72 else 40)"

definition objc2_read_class_rw ::
  "'a::len word objc_env \<Rightarrow> plcrash_async_macho \<Rightarrow> 'a word \<Rightarrow> plcrash_error \<times> 32 word \<times> 'a word" where
  "objc2_read_class_rw env img dataPtr =
     (if m64 img
      then (case read_data_rw_64 env dataPtr 16 of
              (err, classDataRW_64) \<Rightarrow>
                (err, rw_64_flags classDataRW_64, ucast (swap64 img (rw_64_data_ro classDataRW_64))))
      else (case read_data_rw_32 env dataPtr 12 of
              (err, classDataRW_32) \<Rightarrow>
                (err, rw_32_flags classDataRW_32, ucast (swap32 img (rw_32_data_ro classDataRW_32)))))"

definition pl_async_objc_parse_objc2_class ::
  "'a::len word objc_env \<Rightarrow> plcrash_async_macho \<Rightarrow> 'a word plcrash_async_objc_cache
     \<Rightarrow> pl_objc2_class_ptrs \<Rightarrow> bool
     \<Rightarrow> ('a word, 'c) plcrash_async_objc_found_method_cb \<Rightarrow> 'c
     \<Rightarrow> (plcrash_error \<times> 'a word plcrash_async_objc_cache \<times> 'c) option" where
  "pl_async_objc_parse_objc2_class env img objcContext cls isMetaClass callback ctx =
    (let dataPtr = objc2_class_dataPtr img cls;
         class_ro_length = objc2_class_ro_length img
     in if cache_lookup objcContext dataPtr = 0 then
          (case objc2_read_class_rw env img dataPtr of
             (err, flags, data_ro_addr) \<Rightarrow>
               if err \<noteq> PLCRASH_ESUCCESS then Some (err, objcContext, ctx)
               else if flags AND RW_REALIZED = 0 then Some (err, objcContext, ctx)
               else if flags AND RW_COPIED_RO \<noteq> 0 then
                 (case read_data_ro env data_ro_addr class_ro_length of
                    (e, cls_copied_ro) \<Rightarrow>
                      if e \<noteq> PLCRASH_ESUCCESS then Some (err, objcContext, ctx)
                      else objc2_class_ro_methods env img
                             (cache_set (vm_allocate_success env) objcContext dataPtr data_ro_addr)
                             (Some cls_copied_ro) isMetaClass callback ctx)
               else
                 (case mobject_remap_address env (objcConstMobj objcContext)
                         data_ro_addr 0 class_ro_length of
                    None \<Rightarrow> Some (err, objcContext, ctx)
                  | Some classDataROPtr \<Rightarrow>
                      objc2_class_ro_methods env img
                        (cache_set (vm_allocate_success env) objcContext dataPtr data_ro_addr)
                        (Some (local_data_ro env classDataROPtr)) isMetaClass callback ctx))
        else
          (let cached_data_ro_addr = cache_lookup objcContext dataPtr
           in objc2_class_ro_methods env img objcContext
                (case mobject_remap_address env (objcConstMobj objcContext)
                        cached_data_ro_addr 0 class_ro_length of
                   Some classDataROPtr \<Rightarrow> Some (local_data_ro env classDataROPtr)
                 | None \<Rightarrow>
                     (case read_data_ro env cached_data_ro_addr class_ro_length of
                        (e, cls_copied_ro) \<Rightarrow>
                          if e = PLCRASH_ESUCCESS then Some cls_copied_ro else None))
                isMetaClass callback ctx))"

subsection \<open>Parsing the class list\<close>

text \<open>
  One iteration of the loop over the class list is the class, then its metaclass. Both
  functions return, besides the values of \<open>err\<close>, the context object and the callback's
  context, whether the loop goes on (\<open>True\<close>) or is left by a \<open>goto cleanup\<close> (\<open>False\<close>).
  A class structure has 20 or 40 bytes.
\<close>

definition objc2_classlist_metaclass ::
  "'a::len word objc_env \<Rightarrow> plcrash_async_macho \<Rightarrow> pl_objc2_class_ptrs
     \<Rightarrow> ('a word, 'c) plcrash_async_objc_found_method_cb
     \<Rightarrow> plcrash_error \<Rightarrow> 'a word plcrash_async_objc_cache \<Rightarrow> 'c
     \<Rightarrow> (bool \<times> plcrash_error \<times> 'a word plcrash_async_objc_cache \<times> 'c) option" where
  "objc2_classlist_metaclass env img cls callback err objcContext ctx =
    (let isa = (if m64 img then ucast (swap64 img (class_64_isa cls))
                else ucast (swap32 img (class_32_isa cls)))
     in case mobject_remap_address env (objcDataMobj objcContext) isa 0
               (if m64 img then 40 else 20) of
          None \<Rightarrow> Some (False, err, objcContext, ctx)
        | Some metaclassPtr \<Rightarrow>
            (case pl_async_objc_parse_objc2_class env img objcContext
                    (local_class env metaclassPtr) True callback ctx of
               None \<Rightarrow> None
             | Some (err1, objcContext1, ctx1) \<Rightarrow>
                 Some (err1 = PLCRASH_ESUCCESS, err1, objcContext1, ctx1)))"

definition objc2_classlist_iteration ::
  "'a::len word objc_env \<Rightarrow> plcrash_async_macho \<Rightarrow> nat
     \<Rightarrow> ('a word, 'c) plcrash_async_objc_found_method_cb
     \<Rightarrow> nat \<Rightarrow> plcrash_error \<Rightarrow> 'a word plcrash_async_objc_cache \<Rightarrow> 'c
     \<Rightarrow> (bool \<times> plcrash_error \<times> 'a word plcrash_async_objc_cache \<times> 'c) option" where
  "objc2_classlist_iteration env img classPtrs callback i err objcContext ctx =
    (let ptr = (if m64 img then ucast (swap64 img (local_class_ptr_64 env classPtrs i))
                else ucast (swap32 img (local_class_ptr_32 env classPtrs i)))
     in case mobject_remap_address env (objcDataMobj objcContext) ptr 0
               (if m64 img then 40 else 20) of
          None \<Rightarrow> Some (False, err, objcContext, ctx)
        | Some classPtr \<Rightarrow>
            (case pl_async_objc_parse_objc2_class env img objcContext
                    (local_class env classPtr) False callback ctx of
               None \<Rightarrow> None
             | Some (err1, objcContext1, ctx1) \<Rightarrow>
                 if err1 \<noteq> PLCRASH_ESUCCESS then Some (False, err1, objcContext1, ctx1)
                 else objc2_classlist_metaclass env img (local_class env classPtr) callback
                        err1 objcContext1 ctx1))"

text \<open>The loop \<open>for (unsigned i = 0; i < classCount; i++)\<close>, over the indices still to
  visit.\<close>

fun objc2_classlist_loop ::
  "'a::len word objc_env \<Rightarrow> plcrash_async_macho \<Rightarrow> nat
     \<Rightarrow> ('a word, 'c) plcrash_async_objc_found_method_cb
     \<Rightarrow> nat list \<Rightarrow> plcrash_error \<Rightarrow> 'a word plcrash_async_objc_cache \<Rightarrow> 'c
     \<Rightarrow> (plcrash_error \<times> 'a word plcrash_async_objc_cache \<times> 'c) option" where
  "objc2_classlist_loop env img classPtrs callback [] err objcContext ctx =
     Some (err, objcContext, ctx)"
| "objc2_classlist_loop env img classPtrs callback (i # rest) err objcContext ctx =
    (case objc2_classlist_iteration env img classPtrs callback i err objcContext ctx of
       None \<Rightarrow> None
     | Some (go_on, err1, objcContext1, ctx1) \<Rightarrow>
         if go_on then objc2_classlist_loop env img classPtrs callback rest err1 objcContext1 ctx1
         else Some (err1, objcContext1, ctx1))"

text \<open>\<open>pl_async_objc_parse_from_data_section\<close>. \<open>classCount\<close> is an \<open>unsigned\<close>, of 32
  bits.\<close>

definition pl_async_objc_parse_from_data_section ::
  "'a::len word objc_env \<Rightarrow> plcrash_async_macho \<Rightarrow> 'a word plcrash_async_objc_cache
     \<Rightarrow> ('a word, 'c) plcrash_async_objc_found_method_cb \<Rightarrow> 'c
     \<Rightarrow> (plcrash_error \<times> 'a word plcrash_async_objc_cache \<times> 'c) option" where
  "pl_async_objc_parse_from_data_section env img objcContext callback ctx =
    (case map_sections env img objcContext of (err, objcContext1) \<Rightarrow>
       if err \<noteq> PLCRASH_ESUCCESS then Some (err, objcContext1, ctx)
       else
         case mobject_remap_address env (classMobj objcContext1)
                (task_address (classMobj objcContext1)) 0 (mobj_length (classMobj objcContext1)) of
           None \<Rightarrow> Some (err, objcContext1, ctx)
         | Some classPtrs \<Rightarrow>
             let classCount = (unat (mobj_length (classMobj objcContext1))
                                 div (if m64 img then 8 else 4)) mod 2 ^ 32
             in objc2_classlist_loop env img classPtrs callback [0 ..< classCount]
                  err objcContext1 ctx)"

subsection \<open>The two parsers together, and the method search\<close>

text \<open>\<open>pl_async_objc_parse_from_module_info\<close>, by the run that \<open>env\<close> gives: the callback
  is invoked on the methods in order.\<close>

definition invoke :: "('w, 'c) plcrash_async_objc_found_method_cb \<Rightarrow> 'c \<Rightarrow> 'w objc_method \<Rightarrow> 'c" where
  "invoke callback ctx m =
     (case m of (isMeta, className, methodName, imp) \<Rightarrow> callback isMeta className methodName imp ctx)"

definition pl_async_objc_parse_from_module_info ::
  "'a::len word objc_env \<Rightarrow> plcrash_async_macho
     \<Rightarrow> ('a word, 'c) plcrash_async_objc_found_method_cb \<Rightarrow> 'c \<Rightarrow> plcrash_error \<times> 'c" where
  "pl_async_objc_parse_from_module_info env img callback ctx =
    (case objc1_module_info env img of
       (methods, err) \<Rightarrow> (err, foldl (invoke callback) ctx methods))"

datatype objc_parser = ObjC1_module_info | ObjC2_data_section

text \<open>
  \<open>plcrash_async_objc_parse\<close>. The \<open>cache\<close> argument is a pointer, \<open>None\<close> for \<open>NULL\<close>.
  Besides the error code, the context object and the callback's context, the result lists
  the parsers that the call ran, in order; this list is an observation of the run and not a
  value of the C function.
\<close>

definition plcrash_async_objc_parse ::
  "'a::len word objc_env \<Rightarrow> plcrash_async_macho \<Rightarrow> 'a word plcrash_async_objc_cache option
     \<Rightarrow> ('a word, 'c) plcrash_async_objc_found_method_cb \<Rightarrow> 'c
     \<Rightarrow> (plcrash_error \<times> 'a word plcrash_async_objc_cache option \<times> 'c \<times> objc_parser list) option" where
  "plcrash_async_objc_parse env img cache callback ctx =
    (case cache of
       None \<Rightarrow> Some (PLCRASH_EACCESS, None, ctx, [])
     | Some c \<Rightarrow>
         (case (if \<not> gotObjC2Info c
                then (case pl_async_objc_parse_from_module_info env img callback ctx of
                        (e, x) \<Rightarrow> (e, x, [ObjC1_module_info]))
                else (PLCRASH_ENOTFOUND, ctx, [])) of
            (err, ctx1, tried) \<Rightarrow>
              if err = PLCRASH_ENOTFOUND then
                (case pl_async_objc_parse_from_data_section env img c callback ctx1 of
                   None \<Rightarrow> None
                 | Some (err2, c2, ctx2) \<Rightarrow>
                     Some (err2,
                           Some (if err2 = PLCRASH_ESUCCESS then c2\<lparr>gotObjC2Info := True\<rparr> else c2),
                           ctx2, tried @ [ObjC2_data_section]))
              else Some (err, Some c, ctx1, tried)))"

record 'w pl_async_objc_find_method_search_context =
  searchIMP :: 'w
  bestIMP :: 'w

record ('w, 'u) pl_async_objc_find_method_call_context =
  call_searchIMP :: 'w
  outerCallback :: "('w, 'u) plcrash_async_objc_found_method_cb option"
  outerCallbackCtx :: 'u

definition pl_async_objc_find_method_search_callback ::
  "('a::len word, 'a word pl_async_objc_find_method_search_context)
     plcrash_async_objc_found_method_cb" where
  "pl_async_objc_find_method_search_callback isClassMethod className methodName imp ctxStruct =
    (if imp \<ge> bestIMP ctxStruct \<and> imp \<le> searchIMP ctxStruct
     then ctxStruct\<lparr>bestIMP := imp\<rparr> else ctxStruct)"

definition pl_async_objc_find_method_call_callback ::
  "('a::len word, ('a word, 'u) pl_async_objc_find_method_call_context)
     plcrash_async_objc_found_method_cb" where
  "pl_async_objc_find_method_call_callback isClassMethod className methodName imp ctxStruct =
    (case outerCallback ctxStruct of
       Some cb \<Rightarrow>
         if imp = call_searchIMP ctxStruct
         then ctxStruct\<lparr>outerCallback := None,
                         outerCallbackCtx :=
                           cb isClassMethod className methodName imp (outerCallbackCtx ctxStruct)\<rparr>
         else ctxStruct
     | None \<Rightarrow> ctxStruct)"

text \<open>\<open>plcrash_async_objc_find_method\<close>: the error code, the context object and the
  context of the caller's callback.\<close>

definition plcrash_async_objc_find_method ::
  "'a::len word objc_env \<Rightarrow> plcrash_async_macho \<Rightarrow> 'a word plcrash_async_objc_cache option
     \<Rightarrow> 'a word \<Rightarrow> ('a word, 'u) plcrash_async_objc_found_method_cb \<Rightarrow> 'u
     \<Rightarrow> (plcrash_error \<times> 'a word plcrash_async_objc_cache option \<times> 'u) option" where
  "plcrash_async_objc_find_method env img objcContext imp callback ctx =
    (case plcrash_async_objc_parse env img objcContext pl_async_objc_find_method_search_callback
            \<lparr>searchIMP = imp, bestIMP = 0\<rparr> of
       None \<Rightarrow> None
     | Some (err, objcContext1, searchCtx, tried) \<Rightarrow>
         if err \<noteq> PLCRASH_ESUCCESS then Some (err, objcContext1, ctx)
         else if bestIMP searchCtx = 0 then Some (PLCRASH_ENOTFOUND, objcContext1, ctx)
         else
           (case plcrash_async_objc_parse env img objcContext1
                   pl_async_objc_find_method_call_callback
                   \<lparr>call_searchIMP = bestIMP searchCtx, outerCallback = Some callback,
                     outerCallbackCtx = ctx\<rparr> of
              None \<Rightarrow> None
            | Some (err2, objcContext2, callCtx, tried2) \<Rightarrow>
                Some (err2, objcContext2, outerCallbackCtx callCtx)))"

subsection \<open>Notions for the statements\<close>

text \<open>A bucket is occupied when the arrays are allocated and its key is not 0: the test of
  \<open>cache_set\<close>.\<close>

definition slot_occupied :: "'a::len word plcrash_async_objc_cache \<Rightarrow> 'a word \<Rightarrow> bool" where
  "slot_occupied context key \<longleftrightarrow>
     (case classCacheKeys context of
        None \<Rightarrow> False
      | Some ks \<Rightarrow> ks ! cache_index context key \<noteq> 0)"

text \<open>The callback that records the methods it is handed, in order; the IMP of a method;
  the first method of a list with a given IMP.\<close>

definition record_method :: "('w, 'w objc_method list) plcrash_async_objc_found_method_cb" where
  "record_method isMeta className methodName imp ms = ms @ [(isMeta, className, methodName, imp)]"

definition method_imp :: "'w objc_method \<Rightarrow> 'w" where
  "method_imp m = snd (snd (snd m))"

fun first_with_imp :: "'w \<Rightarrow> 'w objc_method list \<Rightarrow> 'w objc_method option" where
  "first_with_imp i [] = None"
| "first_with_imp i (m # ms) = (if method_imp m = i then Some m else first_with_imp i ms)"

text \<open>The error code and the callback's context of a result, without the context
  object.\<close>

definition err_and_ctx :: "(plcrash_error \<times> 'k \<times> 'c) option \<Rightarrow> (plcrash_error \<times> 'c) option" where
  "err_and_ctx r = (case r of None \<Rightarrow> None | Some (err, k, ctx) \<Rightarrow> Some (err, ctx))"




text \<open>Relations between two runs of the parser that differ in the callback only: the
  callbacks keep their contexts related, and two results agree but for related contexts.\<close>

definition cb_sim ::
  "('c \<Rightarrow> 'd \<Rightarrow> bool) \<Rightarrow> ('w, 'c) plcrash_async_objc_found_method_cb
     \<Rightarrow> ('w, 'd) plcrash_async_objc_found_method_cb \<Rightarrow> bool" where
  "cb_sim R cb1 cb2 \<longleftrightarrow> (\<forall>b cn mn i x y. R x y \<longrightarrow> R (cb1 b cn mn i x) (cb2 b cn mn i y))"

definition sim3 ::
  "('c \<Rightarrow> 'd \<Rightarrow> bool) \<Rightarrow> (plcrash_error \<times> 'k \<times> 'c) option
     \<Rightarrow> (plcrash_error \<times> 'k \<times> 'd) option \<Rightarrow> bool" where
  "sim3 R r s =
     rel_option (\<lambda>p q. fst p = fst q \<and> fst (snd p) = fst (snd q) \<and> R (snd (snd p)) (snd (snd q))) r s"

definition sim4 ::
  "('c \<Rightarrow> 'd \<Rightarrow> bool) \<Rightarrow> (bool \<times> plcrash_error \<times> 'k \<times> 'c) option
     \<Rightarrow> (bool \<times> plcrash_error \<times> 'k \<times> 'd) option \<Rightarrow> bool" where
  "sim4 R r s =
     rel_option (\<lambda>p q. fst p = fst q \<and> fst (snd p) = fst (snd q)
        \<and> fst (snd (snd p)) = fst (snd (snd q))
        \<and> R (snd (snd (snd p))) (snd (snd (snd q)))) r s"

definition sim_parse ::
  "('c \<Rightarrow> 'd \<Rightarrow> bool) \<Rightarrow> (plcrash_error \<times> 'k \<times> 'c \<times> 't) option
     \<Rightarrow> (plcrash_error \<times> 'k \<times> 'd \<times> 't) option \<Rightarrow> bool" where
  "sim_parse R r s =
     rel_option (\<lambda>p q. fst p = fst q \<and> fst (snd p) = fst (snd q)
        \<and> R (fst (snd (snd p))) (fst (snd (snd q)))
        \<and> snd (snd (snd p)) = snd (snd (snd q))) r s"

subsection \<open>An example image\<close>

text \<open>A context object after \<open>plcrash_async_objc_cache_init\<close>, and the same with one
  entry stored.\<close>

definition cache_fresh :: "64 word plcrash_async_objc_cache" where
  "cache_fresh = snd (plcrash_async_objc_cache_init
     \<lparr> gotObjC2Info = True, lastImage = Some 7,
       objcConstMobj = \<lparr>task_address = 0, mobj_length = 0\<rparr>, objcConstMobjInitialized = False,
       classMobj = \<lparr>task_address = 0, mobj_length = 0\<rparr>, classMobjInitialized = False,
       objcDataMobj = \<lparr>task_address = 0, mobj_length = 0\<rparr>, objcDataMobjInitialized = False,
       classCacheSize = 0, classCacheKeys = None, classCacheValues = None \<rparr>)"

definition cache_one_entry :: "64 word plcrash_async_objc_cache" where
  "cache_one_entry = cache_set True cache_fresh 0x1000 0x2000"

text \<open>
  A 64-bit image in host byte order, in the task of the parser itself (a mapped address is
  its own local pointer). Its sections: \<open>__objc_const\<close> at 0x3000 and \<open>__objc_data\<close> at
  0x6000, of 0x1000 bytes each, and \<open>__objc_classlist\<close> at 0x5000, of 24 bytes: three class
  pointers. It has no \<open>__module_info\<close> section. The classes, in the order of the list:
  \<^item> Class C at 0x6400, metaclass at 0x6500. Its \<open>class_rw\<close> at 0x8040 is realized and
    points to a \<open>class_ro\<close> at 0x7777000, outside \<open>__objc_const\<close>. The \<open>class_rw\<close> of the
    metaclass, at 0x8050, is not realized.
  \<^item> Class A at 0x6000, metaclass at 0x6100. Its \<open>class_rw\<close> is at 0x8000 and is readable
    when \<open>rw_A_readable\<close>: realized, with a heap copy of \<open>class_ro\<close> at 0xA000 (flags
    \<open>RW_REALIZED | RW_COPIED_RO\<close>). The class is named ClassA, its methods are \<open>bar\<close> at
    0x1100 and \<open>baz\<close> at 0x1200. The metaclass (\<open>class_rw\<close> at 0x8010) is not realized.
  \<^item> Class B at 0x6200, metaclass at 0x6300. Its \<open>class_rw\<close> at 0x8020 is realized, with
    \<open>class_ro\<close> at 0x3100 inside \<open>__objc_const\<close>. The class is named MyClass, its methods are
    \<open>foo:\<close> at 0x1200 and \<open>qux\<close> at 0x1300. The \<open>class_rw\<close> of the metaclass, at 0x8030, is
    not realized.
  A read of task memory at any other address fails with \<open>PLCRASH_EACCESS\<close>.
\<close>

definition img_example :: plcrash_async_macho where
  "img_example = \<lparr> image_ptr = 1, m64 = True, swap32 = (\<lambda>x. x), swap64 = (\<lambda>x. x) \<rparr>"

definition env_example :: "bool \<Rightarrow> 64 word objc_env" where
  "env_example rw_A_readable =
    \<lparr> macho_map_section = (\<lambda>img seg sect.
        if seg = kDataSegmentName \<and> sect = kObjCConstSectionName
          then (PLCRASH_ESUCCESS, \<lparr>task_address = 0x3000, mobj_length = 0x1000\<rparr>)
        else if seg = kDataSegmentName \<and> sect = kClassListSectionName
          then (PLCRASH_ESUCCESS, \<lparr>task_address = 0x5000, mobj_length = 24\<rparr>)
        else if seg = kDataSegmentName \<and> sect = kObjCDataSectionName
          then (PLCRASH_ESUCCESS, \<lparr>task_address = 0x6000, mobj_length = 0x1000\<rparr>)
        else (PLCRASH_ENOTFOUND, \<lparr>task_address = 0, mobj_length = 0\<rparr>)),
      mobject_remap_address = (\<lambda>mobj addr off len.
        if task_address mobj \<le> addr
           \<and> unat addr + unat len \<le> unat (task_address mobj) + unat (mobj_length mobj)
        then Some (unat addr) else None),
      local_class_ptr_32 = (\<lambda>p i. 0),
      local_class_ptr_64 = (\<lambda>p i. if p = 0x5000 \<and> i = 0 then 0x6400
                                 else if p = 0x5000 \<and> i = 1 then 0x6000
                                 else if p = 0x5000 \<and> i = 2 then 0x6200 else 0),
      local_class = (\<lambda>p.
        if p = 0x6000 then \<lparr>class_32_isa = 0, class_32_data_rw = 0,
                              class_64_isa = 0x6100, class_64_data_rw = 0x8000\<rparr>
        else if p = 0x6100 then \<lparr>class_32_isa = 0, class_32_data_rw = 0,
                                   class_64_isa = 0x6100, class_64_data_rw = 0x8010\<rparr>
        else if p = 0x6200 then \<lparr>class_32_isa = 0, class_32_data_rw = 0,
                                   class_64_isa = 0x6300, class_64_data_rw = 0x8020\<rparr>
        else if p = 0x6300 then \<lparr>class_32_isa = 0, class_32_data_rw = 0,
                                   class_64_isa = 0x6300, class_64_data_rw = 0x8030\<rparr>
        else if p = 0x6400 then \<lparr>class_32_isa = 0, class_32_data_rw = 0,
                                   class_64_isa = 0x6500, class_64_data_rw = 0x8040\<rparr>
        else if p = 0x6500 then \<lparr>class_32_isa = 0, class_32_data_rw = 0,
                                   class_64_isa = 0x6500, class_64_data_rw = 0x8050\<rparr>
        else \<lparr>class_32_isa = 0, class_32_data_rw = 0, class_64_isa = 0, class_64_data_rw = 0\<rparr>),
      local_data_ro = (\<lambda>p.
        if p = 0x3100 then \<lparr>ro_32_name = 0, ro_32_baseMethods = 0,
                              ro_64_name = 0x3F10, ro_64_baseMethods = 0x3300\<rparr>
        else \<lparr>ro_32_name = 0, ro_32_baseMethods = 0, ro_64_name = 0, ro_64_baseMethods = 0\<rparr>),
      local_list_header = (\<lambda>p.
        if p = 0x3200 \<or> p = 0x3300 then \<lparr>header_entsize = 24, header_count = 2\<rparr>
        else \<lparr>header_entsize = 0, header_count = 0\<rparr>),
      local_method = (\<lambda>p.
        if p = 0x3208 then \<lparr>method_32_name = 0, method_32_imp = 0,
                              method_64_name = 0x3F20, method_64_imp = 0x1100\<rparr>
        else if p = 0x3220 then \<lparr>method_32_name = 0, method_32_imp = 0,
                                   method_64_name = 0x3F30, method_64_imp = 0x1200\<rparr>
        else if p = 0x3308 then \<lparr>method_32_name = 0, method_32_imp = 0,
                                   method_64_name = 0x3F40, method_64_imp = 0x1200\<rparr>
        else if p = 0x3320 then \<lparr>method_32_name = 0, method_32_imp = 0,
                                   method_64_name = 0x3F50, method_64_imp = 0x1300\<rparr>
        else \<lparr>method_32_name = 0, method_32_imp = 0, method_64_name = 0, method_64_imp = 0\<rparr>),
      read_data_rw_32 = (\<lambda>addr len. (PLCRASH_EACCESS, \<lparr>rw_32_flags = 0, rw_32_data_ro = 0\<rparr>)),
      read_data_rw_64 = (\<lambda>addr len.
        if addr = 0x8000 \<and> rw_A_readable
          then (PLCRASH_ESUCCESS, \<lparr>rw_64_flags = 0x88000000, rw_64_data_ro = 0xA000\<rparr>)
        else if addr = 0x8010 \<or> addr = 0x8030 \<or> addr = 0x8050
          then (PLCRASH_ESUCCESS, \<lparr>rw_64_flags = 0, rw_64_data_ro = 0\<rparr>)
        else if addr = 0x8020
          then (PLCRASH_ESUCCESS, \<lparr>rw_64_flags = 0x80000000, rw_64_data_ro = 0x3100\<rparr>)
        else if addr = 0x8040
          then (PLCRASH_ESUCCESS, \<lparr>rw_64_flags = 0x80000000, rw_64_data_ro = 0x7777000\<rparr>)
        else (PLCRASH_EACCESS, \<lparr>rw_64_flags = 0, rw_64_data_ro = 0\<rparr>)),
      read_data_ro = (\<lambda>addr len.
        if addr = 0xA000
          then (PLCRASH_ESUCCESS, \<lparr>ro_32_name = 0, ro_32_baseMethods = 0,
                                    ro_64_name = 0x3F00, ro_64_baseMethods = 0x3200\<rparr>)
        else if addr = 0x3100
          then (PLCRASH_ESUCCESS, \<lparr>ro_32_name = 0, ro_32_baseMethods = 0,
                                    ro_64_name = 0x3F10, ro_64_baseMethods = 0x3300\<rparr>)
        else (PLCRASH_EACCESS, \<lparr>ro_32_name = 0, ro_32_baseMethods = 0,
                                 ro_64_name = 0, ro_64_baseMethods = 0\<rparr>)),
      macho_string_init = (\<lambda>img addr.
        if addr = 0x3F00 then (PLCRASH_ESUCCESS, ''ClassA'')
        else if addr = 0x3F10 then (PLCRASH_ESUCCESS, ''MyClass'')
        else if addr = 0x3F20 then (PLCRASH_ESUCCESS, ''bar'')
        else if addr = 0x3F30 then (PLCRASH_ESUCCESS, ''baz'')
        else if addr = 0x3F40 then (PLCRASH_ESUCCESS, ''foo:'')
        else if addr = 0x3F50 then (PLCRASH_ESUCCESS, ''qux'')
        else (PLCRASH_EACCESS, [])),
      vm_allocate_success = True,
      objc1_module_info = (\<lambda>img. ([], PLCRASH_ENOTFOUND)) \<rparr>"

text \<open>The context object after \<open>map_sections\<close> on the example image, from a fresh one.\<close>

definition cache_mapped :: "64 word plcrash_async_objc_cache" where
  "cache_mapped =
     cache_fresh\<lparr>objcConstMobj := \<lparr>task_address = 0x3000, mobj_length = 0x1000\<rparr>,
                  objcConstMobjInitialized := True,
                  classMobj := \<lparr>task_address = 0x5000, mobj_length = 24\<rparr>,
                  classMobjInitialized := True,
                  objcDataMobj := \<lparr>task_address = 0x6000, mobj_length = 0x1000\<rparr>,
                  objcDataMobjInitialized := True,
                  lastImage := Some 1\<rparr>"

text \<open>
  The context object along a parse of the example image with class A readable: after class A
  (its \<open>class_ro\<close> address stored), after class B, and at the end of a successful
  \<open>plcrash_async_objc_parse\<close>. The methods of class A and of class B, as the parser hands
  them to the callback.
\<close>

definition cache_after_A :: "64 word plcrash_async_objc_cache" where
  "cache_after_A = cache_set True cache_mapped 0x8000 0xA000"

definition cache_after_B :: "64 word plcrash_async_objc_cache" where
  "cache_after_B = cache_set True cache_after_A 0x8020 0x3100"

definition cache_parsed :: "64 word plcrash_async_objc_cache" where
  "cache_parsed = cache_after_B\<lparr>gotObjC2Info := True\<rparr>"

definition methods_A :: "64 word objc_method list" where
  "methods_A = [(False, ''ClassA'', ''bar'', 0x1100), (False, ''ClassA'', ''baz'', 0x1200)]"

definition methods_B :: "64 word objc_method list" where
  "methods_B = [(False, ''MyClass'', ''foo:'', 0x1200), (False, ''MyClass'', ''qux'', 0x1300)]"

text \<open>
  The mapped context object with one class cached already: the \<open>class_rw\<close> address 0x9000,
  whose bucket, \<open>(0x9000 >> 2) mod 1024 = 0\<close>, is the bucket of 0x8000, the \<open>class_rw\<close>
  address of class A.
\<close>

definition cache_collision :: "64 word plcrash_async_objc_cache" where
  "cache_collision = cache_set True cache_mapped 0x9000 0xB000"



section \<open>Properties of the ARM thread state\<close>

lemma arm_enum_sequential_ok: "arm_enum_ok arm_enum_sequential"
  by (simp add: arm_enum_ok_def arm_enum_sequential_def arm_regs_def)

lemma arm_regs_all: "r \<in> set arm_regs"
  by (cases r) (simp_all add: arm_regs_def)

lemma regnum_inj:
  assumes "arm_enum_ok E"
  shows "regnum E r = regnum E r' \<longleftrightarrow> r = r'"
proof -
  from assms have "distinct (map (regnum E) arm_regs)"
    by (simp add: arm_enum_ok_def)
  then have "inj_on (regnum E) (set arm_regs)"
    by (simp add: distinct_map)
  then show ?thesis
    using arm_regs_all by (auto dest: inj_onD)
qed

lemma regnum_le_last:
  assumes "arm_enum_ok E"
  shows "regnum E r \<le> PLCRASH_ARM_LAST_REG E"
proof -
  from assms have "list_all (\<lambda>r. regnum E r \<le> PLCRASH_ARM_LAST_REG E) arm_regs"
    by (simp add: arm_enum_ok_def)
  then show ?thesis
    using arm_regs_all by (auto simp: list_all_iff)
qed

subsection \<open>The validity bits\<close>

lemma has_reg_bit: "plcrash_async_thread_state_has_reg ts n \<longleftrightarrow> bit (valid_regs ts) n"
  unfolding plcrash_async_thread_state_has_reg_def
  by (metis and_exp_eq_0_iff_not_bit push_bit_of_1)

lemma clear_reg_bit:
  "bit (valid_regs (plcrash_async_thread_state_clear_reg ts n)) i \<longleftrightarrow> bit (valid_regs ts) i \<and> i \<noteq> n"
  unfolding plcrash_async_thread_state_clear_reg_def
  by (auto simp add: bit_simps dest: bit_imp_possible_bit)

lemma preserved_set: "preserved xs reg \<longleftrightarrow> reg \<in> set xs"
  by (induction xs) auto

lemma iter_bit:
  "bit (valid_regs (clear_volatile_iter E ts reg)) i \<longleftrightarrow>
     bit (valid_regs ts) i \<and> (i = reg \<longrightarrow> preserved (arm_nonvolatile_registers E) reg)"
  by (auto simp: clear_volatile_iter_def has_reg_bit clear_reg_bit)

lemma loop_bit:
  "bit (valid_regs (foldl (clear_volatile_iter E) ts [0..<n])) i \<longleftrightarrow>
     bit (valid_regs ts) i \<and> (i < n \<longrightarrow> preserved (arm_nonvolatile_registers E) i)"
  by (induction n) (auto simp: iter_bit less_Suc_eq)

lemma iter_regs:
  "arm_r (clear_volatile_iter E ts reg) = arm_r ts"
  "arm_sp (clear_volatile_iter E ts reg) = arm_sp ts"
  "arm_lr (clear_volatile_iter E ts reg) = arm_lr ts"
  "arm_pc (clear_volatile_iter E ts reg) = arm_pc ts"
  "arm_cpsr (clear_volatile_iter E ts reg) = arm_cpsr ts"
  by (simp_all add: clear_volatile_iter_def plcrash_async_thread_state_clear_reg_def)

lemma loop_regs:
  "arm_r (foldl (clear_volatile_iter E) ts xs) = arm_r ts"
  "arm_sp (foldl (clear_volatile_iter E) ts xs) = arm_sp ts"
  "arm_lr (foldl (clear_volatile_iter E) ts xs) = arm_lr ts"
  "arm_pc (foldl (clear_volatile_iter E) ts xs) = arm_pc ts"
  "arm_cpsr (foldl (clear_volatile_iter E) ts xs) = arm_cpsr ts"
  by (induction xs arbitrary: ts; simp add: iter_regs)+

lemma ts_all_valid_has_reg:
  "plcrash_async_thread_state_has_reg ts_all_valid (regnum arm_enum_sequential r)"
  by (cases r)
     (simp_all add: ts_all_valid_def arm_enum_sequential_def plcrash_async_thread_state_has_reg_def)

text \<open>
  Claim C1, as amended. The preservation table of the ARM file holds R4-R8, R10 and R11 and
  nothing else. For every thread state, after
  \<open>plcrash_async_thread_state_clear_volatile_regs\<close> a register is valid exactly when it was
  valid before and is one of R4-R8, R10, R11; every other register, SP and LR among them, is
  invalid; and a read of any register returns what it returned before.
\<close>

theorem clear_volatile_regs_keeps_table_only:
  assumes "arm_enum_ok E"
  shows "(\<forall>r. plcrash_async_thread_state_has_reg
                (plcrash_async_thread_state_clear_volatile_regs E ts) (regnum E r)
              \<longleftrightarrow> plcrash_async_thread_state_has_reg ts (regnum E r)
                   \<and> r \<in> set arm_nonvolatile_regs) \<and>
         (\<forall>r. plcrash_async_thread_state_get_reg E
                (plcrash_async_thread_state_clear_volatile_regs E ts) (regnum E r)
              = plcrash_async_thread_state_get_reg E ts (regnum E r))"
proof (intro conjI allI)
  fix r
  have "regnum E r < plcrash_async_thread_state_get_reg_count E"
    using regnum_le_last [OF assms, of r]
    by (simp add: plcrash_async_thread_state_get_reg_count_def)
  moreover have "regnum E r \<in> set (arm_nonvolatile_registers E) \<longleftrightarrow> r \<in> set arm_nonvolatile_regs"
    by (auto simp: arm_nonvolatile_registers_def regnum_inj [OF assms])
  ultimately show "plcrash_async_thread_state_has_reg
                (plcrash_async_thread_state_clear_volatile_regs E ts) (regnum E r)
              \<longleftrightarrow> plcrash_async_thread_state_has_reg ts (regnum E r)
                   \<and> r \<in> set arm_nonvolatile_regs"
    by (simp add: has_reg_bit plcrash_async_thread_state_clear_volatile_regs_def loop_bit
        preserved_set)
next
  fix r
  show "plcrash_async_thread_state_get_reg E
                (plcrash_async_thread_state_clear_volatile_regs E ts) (regnum E r)
              = plcrash_async_thread_state_get_reg E ts (regnum E r)"
    by (simp add: plcrash_async_thread_state_get_reg_def
        plcrash_async_thread_state_clear_volatile_regs_def loop_regs)
qed

text \<open>The amended claim at the state with every register valid: R11 stays valid, R9 and the
  program counter do not.\<close>

theorem clear_volatile_regs_keeps_table_only_witness:
  "arm_enum_ok arm_enum_sequential \<and>
   plcrash_async_thread_state_has_reg
     (plcrash_async_thread_state_clear_volatile_regs arm_enum_sequential ts_all_valid)
     (regnum arm_enum_sequential PLCRASH_ARM_R11) \<and>
   \<not> plcrash_async_thread_state_has_reg
     (plcrash_async_thread_state_clear_volatile_regs arm_enum_sequential ts_all_valid)
     (regnum arm_enum_sequential PLCRASH_ARM_R9) \<and>
   \<not> plcrash_async_thread_state_has_reg
     (plcrash_async_thread_state_clear_volatile_regs arm_enum_sequential ts_all_valid)
     (regnum arm_enum_sequential PLCRASH_ARM_PC)"
  using clear_volatile_regs_keeps_table_only [OF arm_enum_sequential_ok, of ts_all_valid]
    arm_enum_sequential_ok ts_all_valid_has_reg
  by (simp add: arm_nonvolatile_regs_def)

text \<open>Claim C1 as stated fails: SP and LR are valid before the call and invalid after it.\<close>

theorem clear_volatile_regs_clears_sp_lr:
  "plcrash_async_thread_state_has_reg ts_all_valid (regnum arm_enum_sequential PLCRASH_ARM_SP) \<and>
   plcrash_async_thread_state_has_reg ts_all_valid (regnum arm_enum_sequential PLCRASH_ARM_LR) \<and>
   \<not> plcrash_async_thread_state_has_reg
     (plcrash_async_thread_state_clear_volatile_regs arm_enum_sequential ts_all_valid)
     (regnum arm_enum_sequential PLCRASH_ARM_SP) \<and>
   \<not> plcrash_async_thread_state_has_reg
     (plcrash_async_thread_state_clear_volatile_regs arm_enum_sequential ts_all_valid)
     (regnum arm_enum_sequential PLCRASH_ARM_LR)"
  by code_simp

text \<open>
  Claim C9. For every ARM thread state, clearing the volatile registers twice gives the same
  thread state, register values and \<open>valid_regs\<close>, as clearing them once.
\<close>

theorem clear_volatile_regs_idempotent:
  assumes "arm_enum_ok E"
  shows "plcrash_async_thread_state_clear_volatile_regs E
           (plcrash_async_thread_state_clear_volatile_regs E ts)
       = plcrash_async_thread_state_clear_volatile_regs E ts"
proof (rule plcrash_async_thread_state.equality)
  show "valid_regs (plcrash_async_thread_state_clear_volatile_regs E
           (plcrash_async_thread_state_clear_volatile_regs E ts))
      = valid_regs (plcrash_async_thread_state_clear_volatile_regs E ts)"
    by (rule bit_eqI) (auto simp: plcrash_async_thread_state_clear_volatile_regs_def loop_bit)
qed (simp_all add: plcrash_async_thread_state_clear_volatile_regs_def loop_regs)

theorem clear_volatile_regs_idempotent_witness:
  "arm_enum_ok arm_enum_sequential \<and>
   plcrash_async_thread_state_clear_volatile_regs arm_enum_sequential
     (plcrash_async_thread_state_clear_volatile_regs arm_enum_sequential ts_all_valid)
   = plcrash_async_thread_state_clear_volatile_regs arm_enum_sequential ts_all_valid \<and>
   valid_regs (plcrash_async_thread_state_clear_volatile_regs arm_enum_sequential
     (plcrash_async_thread_state_clear_volatile_regs arm_enum_sequential ts_all_valid)) = 0xDF0"
proof -
  have "valid_regs (plcrash_async_thread_state_clear_volatile_regs arm_enum_sequential ts_all_valid)
      = 0xDF0"
    by code_simp
  then show ?thesis
    using clear_volatile_regs_idempotent [OF arm_enum_sequential_ok, of ts_all_valid]
      arm_enum_sequential_ok
    by simp
qed

subsection \<open>Register reads\<close>

text \<open>
  Claim C2, as amended. \<open>plcrash_async_thread_state_get_reg\<close> does not consult
  \<open>valid_regs\<close>: for every ARM thread state and every known register identifier r, a read of
  r returns the content of r's field, whatever the validity bits are; the only failure of a
  read is the trap on an identifier that names no register.
\<close>

theorem get_reg_ignores_valid_regs:
  assumes "arm_enum_ok E"
  shows "(\<forall>r v. plcrash_async_thread_state_get_reg E (ts\<lparr>valid_regs := v\<rparr>) (regnum E r)
                 = Inr (arm_reg_field ts r)) \<and>
         (\<forall>n. (\<forall>r. n \<noteq> regnum E r) \<longrightarrow> plcrash_async_thread_state_get_reg E ts n = Inl Trap)"
proof (intro conjI allI impI)
  fix r v
  show "plcrash_async_thread_state_get_reg E (ts\<lparr>valid_regs := v\<rparr>) (regnum E r)
      = Inr (arm_reg_field ts r)"
    by (cases r)
       (simp_all add: plcrash_async_thread_state_get_reg_def arm_reg_field_def
          regnum_inj [OF assms])
next
  fix n assume "\<forall>r. n \<noteq> regnum E r"
  then show "plcrash_async_thread_state_get_reg E ts n = Inl Trap"
    by (simp add: plcrash_async_thread_state_get_reg_def)
qed

theorem get_reg_ignores_valid_regs_witness:
  "arm_enum_ok arm_enum_sequential \<and>
   plcrash_async_thread_state_get_reg arm_enum_sequential (ts_all_valid\<lparr>valid_regs := 0\<rparr>)
     (regnum arm_enum_sequential PLCRASH_ARM_LR) = Inr 0x1234 \<and>
   (\<forall>r. 17 \<noteq> regnum arm_enum_sequential r) \<and>
   plcrash_async_thread_state_get_reg arm_enum_sequential ts_all_valid 17 = Inl Trap"
proof -
  have none: "\<forall>r. 17 \<noteq> regnum arm_enum_sequential r"
  proof
    fix r show "17 \<noteq> regnum arm_enum_sequential r"
      by (cases r) (simp_all add: arm_enum_sequential_def)
  qed
  then show ?thesis
    using get_reg_ignores_valid_regs [OF arm_enum_sequential_ok, of ts_all_valid]
      arm_enum_sequential_ok
    by (simp add: arm_reg_field_def ts_all_valid_def)
qed

text \<open>Claim C2 as stated fails: R0 is not valid, and the read returns its content, 0x2A.\<close>

theorem get_reg_invalid_returns_value:
  "\<not> plcrash_async_thread_state_has_reg ts_none_valid (regnum arm_enum_sequential PLCRASH_ARM_R0) \<and>
   plcrash_async_thread_state_get_reg arm_enum_sequential ts_none_valid
     (regnum arm_enum_sequential PLCRASH_ARM_R0) = Inr 0x2A"
  by (simp add: ts_none_valid_def arm_enum_sequential_def plcrash_async_thread_state_has_reg_def
      plcrash_async_thread_state_get_reg_def)

subsection \<open>The DWARF mapping\<close>

lemma scan_regnum_None: "scan_regnum tbl n = None \<longleftrightarrow> n \<notin> fst ` set tbl"
  by (induction tbl) (auto simp: image_iff split: if_splits)

lemma scan_dwarf_None: "scan_dwarf tbl d = None \<longleftrightarrow> d \<notin> snd ` set tbl"
  by (induction tbl) (auto simp: image_iff split: if_splits)

lemma scan_regnum_Some:
  "distinct (map fst tbl) \<Longrightarrow> (n, d) \<in> set tbl \<Longrightarrow> scan_regnum tbl n = Some d"
  by (induction tbl) (auto simp: rev_image_eqI)

lemma scan_dwarf_Some:
  "distinct (map snd tbl) \<Longrightarrow> (n, d) \<in> set tbl \<Longrightarrow> scan_dwarf tbl d = Some n"
  by (induction tbl) (auto simp: rev_image_eqI)

lemma dwarf_table_fst: "arm_enum_ok E \<Longrightarrow> distinct (map fst (arm_dwarf_table E))"
  by (simp add: arm_dwarf_table_def arm_dwarf_regs_def regnum_inj)

lemma dwarf_table_snd: "distinct (map snd (arm_dwarf_table E))"
  by (simp add: arm_dwarf_table_def arm_dwarf_regs_def)

text \<open>
  Claim C6. For every ARM register r of the DWARF table (R0-R12, SP, LR, PC, with the DWARF
  numbers 0-15), mapping r to its DWARF number succeeds and mapping that number back gives r.
  For every register that is not in the table, CPSR for one, the native-to-DWARF mapping
  returns false; for every DWARF number without an entry, every number above 15 for one, the
  DWARF-to-native mapping returns false. A false return writes no output value.
\<close>

theorem dwarf_mapping_round_trip:
  assumes "arm_enum_ok E"
  shows "(\<forall>(r, d) \<in> set arm_dwarf_regs.
            plcrash_async_thread_state_map_reg_to_dwarf E (regnum E r) = Some d \<and>
            plcrash_async_thread_state_map_dwarf_to_reg E d = Some (regnum E r)) \<and>
         (\<forall>r. r \<notin> fst ` set arm_dwarf_regs \<longrightarrow>
            plcrash_async_thread_state_map_reg_to_dwarf E (regnum E r) = None) \<and>
         plcrash_async_thread_state_map_reg_to_dwarf E (regnum E PLCRASH_ARM_CPSR) = None \<and>
         (\<forall>d. d \<notin> snd ` set arm_dwarf_regs \<longrightarrow>
            plcrash_async_thread_state_map_dwarf_to_reg E d = None) \<and>
         (\<forall>d. 15 < d \<longrightarrow> plcrash_async_thread_state_map_dwarf_to_reg E d = None)"
proof (intro conjI ballI allI impI)
  fix x assume x: "x \<in> set arm_dwarf_regs"
  obtain r d where rd: "x = (r, d)" by (cases x)
  with x have "(regnum E r, d) \<in> set (arm_dwarf_table E)"
    by (force simp: arm_dwarf_table_def)
  then have "plcrash_async_thread_state_map_reg_to_dwarf E (regnum E r) = Some d \<and>
            plcrash_async_thread_state_map_dwarf_to_reg E d = Some (regnum E r)"
    by (simp add: plcrash_async_thread_state_map_reg_to_dwarf_def
        plcrash_async_thread_state_map_dwarf_to_reg_def
        scan_regnum_Some scan_dwarf_Some dwarf_table_fst [OF assms] dwarf_table_snd)
  with rd show "case x of (r, d) \<Rightarrow>
            plcrash_async_thread_state_map_reg_to_dwarf E (regnum E r) = Some d \<and>
            plcrash_async_thread_state_map_dwarf_to_reg E d = Some (regnum E r)"
    by simp
next
  fix r assume "r \<notin> fst ` set arm_dwarf_regs"
  then have "regnum E r \<notin> fst ` set (arm_dwarf_table E)"
    by (auto simp: arm_dwarf_table_def regnum_inj [OF assms] image_iff)
  then show "plcrash_async_thread_state_map_reg_to_dwarf E (regnum E r) = None"
    by (simp add: plcrash_async_thread_state_map_reg_to_dwarf_def scan_regnum_None)
next
  show "plcrash_async_thread_state_map_reg_to_dwarf E (regnum E PLCRASH_ARM_CPSR) = None"
    by (simp add: plcrash_async_thread_state_map_reg_to_dwarf_def arm_dwarf_table_def
        arm_dwarf_regs_def regnum_inj [OF assms])
next
  fix d :: "64 word" assume "d \<notin> snd ` set arm_dwarf_regs"
  then have "d \<notin> snd ` set (arm_dwarf_table E)"
    by (force simp: arm_dwarf_table_def image_iff)
  then show "plcrash_async_thread_state_map_dwarf_to_reg E d = None"
    by (simp add: plcrash_async_thread_state_map_dwarf_to_reg_def scan_dwarf_None)
next
  fix d :: "64 word" assume "15 < d"
  then show "plcrash_async_thread_state_map_dwarf_to_reg E d = None"
    by (auto simp add: plcrash_async_thread_state_map_dwarf_to_reg_def arm_dwarf_table_def
        arm_dwarf_regs_def)
qed

theorem dwarf_mapping_round_trip_witness:
  "arm_enum_ok arm_enum_sequential \<and>
   (PLCRASH_ARM_SP, 13) \<in> set arm_dwarf_regs \<and>
   plcrash_async_thread_state_map_reg_to_dwarf arm_enum_sequential
     (regnum arm_enum_sequential PLCRASH_ARM_SP) = Some 13 \<and>
   plcrash_async_thread_state_map_dwarf_to_reg arm_enum_sequential 13
     = Some (regnum arm_enum_sequential PLCRASH_ARM_SP) \<and>
   PLCRASH_ARM_CPSR \<notin> fst ` set arm_dwarf_regs \<and>
   plcrash_async_thread_state_map_reg_to_dwarf arm_enum_sequential
     (regnum arm_enum_sequential PLCRASH_ARM_CPSR) = None \<and>
   (16 :: 64 word) \<notin> snd ` set arm_dwarf_regs \<and> (15 :: 64 word) < 16 \<and>
   plcrash_async_thread_state_map_dwarf_to_reg arm_enum_sequential 16 = None"
proof -
  have a: "(PLCRASH_ARM_SP, 13) \<in> set arm_dwarf_regs"
    by (simp add: arm_dwarf_regs_def)
  have b: "PLCRASH_ARM_CPSR \<notin> fst ` set arm_dwarf_regs"
    by (simp add: arm_dwarf_regs_def)
  have c: "(16 :: 64 word) \<notin> snd ` set arm_dwarf_regs"
    by (simp add: arm_dwarf_regs_def)
  show ?thesis
    using dwarf_mapping_round_trip [OF arm_enum_sequential_ok] arm_enum_sequential_ok a b c
    by fastforce
qed

section \<open>Properties of the class cache and of the ObjC2 parser\<close>

subsection \<open>Two runs that differ in the callback only\<close>

lemma method_loop_sim:
  assumes "cb_sim R cb1 cb2"
  shows "R x y \<Longrightarrow>
    fst (objc2_method_loop env img m cn cb1 es n cur err x) = fst (objc2_method_loop env img m cn cb2 es n cur err y) \<and>
    R (snd (objc2_method_loop env img m cn cb1 es n cur err x)) (snd (objc2_method_loop env img m cn cb2 es n cur err y))"
proof (induction n arbitrary: cur err x y)
  case 0
  then show ?case by simp
next
  case (Suc n)
  show ?case
  proof (cases "fst (macho_string_init env img
        (if m64 img then ucast (swap64 img (method_64_name (local_method env cur)))
         else ucast (swap32 img (method_32_name (local_method env cur))))) = PLCRASH_ESUCCESS")
    case True
    have "R (cb1 m cn a b x) (cb2 m cn a b y)" for a b
      using assms Suc.prems by (simp add: cb_sim_def)
    from Suc.IH [OF this] True show ?thesis
      by (simp add: Let_def split_beta)
  next
    case False
    then show ?thesis using Suc.prems by (simp add: Let_def split_beta)
  qed
qed

lemma ro_methods_sim:
  assumes "cb_sim R cb1 cb2" "R x y"
  shows "sim3 R (objc2_class_ro_methods env img c ro m cb1 x) (objc2_class_ro_methods env img c ro m cb2 y)"
  using assms(2) method_loop_sim [OF assms]
  by (auto simp: objc2_class_ro_methods_def sim3_def Let_def split_beta split: option.splits)

lemma ro_methods_cache:
  "objc2_class_ro_methods env img c ro m cb x = Some (e, c', x') \<Longrightarrow> c' = c"
  by (auto simp: objc2_class_ro_methods_def Let_def split_beta split: option.splits if_splits)

lemma class_sim:
  assumes "cb_sim R cb1 cb2" "R x y"
  shows "sim3 R (pl_async_objc_parse_objc2_class env img c cls m cb1 x) (pl_async_objc_parse_objc2_class env img c cls m cb2 y)"
proof -
  note ro = ro_methods_sim [OF assms]
  have skip: "sim3 R (Some (e, c, x)) (Some (e, c, y))" for e
    using assms(2) by (simp add: sim3_def)
  show ?thesis
    unfolding pl_async_objc_parse_objc2_class_def Let_def split_beta
    by (simp add: ro skip split: option.splits)
qed

lemma metaclass_sim:
  assumes "cb_sim R cb1 cb2" "R x y"
  shows "sim4 R (objc2_classlist_metaclass env img cls cb1 err c x) (objc2_classlist_metaclass env img cls cb2 err c y)"
proof (cases "mobject_remap_address env (objcDataMobj c)
        (if m64 img then ucast (swap64 img (class_64_isa cls))
         else ucast (swap32 img (class_32_isa cls))) 0 (if m64 img then 40 else 20)")
  case None
  then show ?thesis using assms(2)
    by (simp add: objc2_classlist_metaclass_def Let_def sim4_def)
next
  case (Some p)
  show ?thesis
  proof (cases rule: option.rel_cases [OF class_sim [OF assms, of env img c "local_class env p" True, unfolded sim3_def]])
    case 1
    then show ?thesis using Some
      by (simp add: objc2_classlist_metaclass_def Let_def sim4_def)
  next
    case (2 r s)
    obtain e c' x' where r: "r = (e, c', x')" by (cases r)
    obtain e2 c2 y' where s: "s = (e2, c2, y')" by (cases s)
    from 2 r s have eq: "e2 = e" "c2 = c'" and R: "R x' y'" by simp_all
    show ?thesis using Some 2 r s eq R
      by (simp add: objc2_classlist_metaclass_def Let_def sim4_def)
  qed
qed

lemma iteration_sim:
  assumes "cb_sim R cb1 cb2" "R x y"
  shows "sim4 R (objc2_classlist_iteration env img ps cb1 i err c x) (objc2_classlist_iteration env img ps cb2 i err c y)"
proof -
  have cl: "sim3 R (pl_async_objc_parse_objc2_class env img c cls' False cb1 x)
               (pl_async_objc_parse_objc2_class env img c cls' False cb2 y)" for cls'
    by (rule class_sim [OF assms])
  have mc: "R x' y' \<Longrightarrow> sim4 R (objc2_classlist_metaclass env img cls' cb1 e c' x') (objc2_classlist_metaclass env img cls' cb2 e c' y')"
    for x' y' cls' e c'
    by (rule metaclass_sim [OF assms(1)])
  show ?thesis
  proof (cases "mobject_remap_address env (objcDataMobj c)
        (if m64 img then ucast (swap64 img (local_class_ptr_64 env ps i))
         else ucast (swap32 img (local_class_ptr_32 env ps i))) 0 (if m64 img then 40 else 20)")
    case None
    then show ?thesis using assms(2)
      by (simp add: objc2_classlist_iteration_def Let_def sim4_def)
  next
    case (Some p)
    show ?thesis
    proof (cases rule: option.rel_cases [OF cl [of "local_class env p", unfolded sim3_def]])
      case 1
      then show ?thesis using Some
        by (simp add: objc2_classlist_iteration_def Let_def sim4_def)
    next
      case (2 r s)
      obtain e c' x' where r: "r = (e, c', x')" by (cases r)
      obtain e2 c2 y' where s: "s = (e2, c2, y')" by (cases s)
      from 2 r s have eq: "e2 = e" "c2 = c'" and R: "R x' y'" by simp_all
      show ?thesis using Some 2 r s eq mc [OF R]
        by (simp add: objc2_classlist_iteration_def Let_def sim4_def)
    qed
  qed
qed

lemma loop_sim:
  assumes "cb_sim R cb1 cb2"
  shows "R x y \<Longrightarrow> sim3 R (objc2_classlist_loop env img ps cb1 is err c x) (objc2_classlist_loop env img ps cb2 is err c y)"
proof (induction "is" arbitrary: err c x y)
  case Nil
  then show ?case by (simp add: sim3_def)
next
  case (Cons i rest)
  show ?case
  proof (cases rule: option.rel_cases [OF iteration_sim [OF assms Cons.prems, of env img ps i err c, unfolded sim4_def]])
    case 1
    then show ?thesis by (simp add: sim3_def)
  next
    case (2 r s)
    obtain g e c' x' where r: "r = (g, e, c', x')" by (cases r)
    obtain g2 e2 c2 y' where s: "s = (g2, e2, c2, y')" by (cases s)
    from 2 r s have eq: "g2 = g" "e2 = e" "c2 = c'" and R: "R x' y'" by simp_all
    show ?thesis using 2 r s eq R Cons.IH [OF R, of e c']
      by (simp add: sim3_def)
  qed
qed

lemma data_section_sim:
  assumes "cb_sim R cb1 cb2" "R x y"
  shows "sim3 R (pl_async_objc_parse_from_data_section env img c cb1 x) (pl_async_objc_parse_from_data_section env img c cb2 y)"
proof -
  obtain err c1 where ms: "map_sections env img c = (err, c1)"
    by (cases "map_sections env img c")
  show ?thesis
  proof (cases "err \<noteq> PLCRASH_ESUCCESS")
    case True
    then show ?thesis using ms assms(2)
      by (simp add: pl_async_objc_parse_from_data_section_def sim3_def)
  next
    case False
    show ?thesis
    proof (cases "mobject_remap_address env (classMobj c1) (task_address (classMobj c1)) 0
                    (mobj_length (classMobj c1))")
      case None
      then show ?thesis using ms False assms(2)
        by (simp add: pl_async_objc_parse_from_data_section_def sim3_def)
    next
      case (Some ps)
      then show ?thesis using ms False loop_sim [OF assms]
        by (simp add: pl_async_objc_parse_from_data_section_def Let_def)
    qed
  qed
qed

lemma module_info_sim:
  assumes "cb_sim R cb1 cb2" "R x y"
  shows "fst (pl_async_objc_parse_from_module_info env img cb1 x) = fst (pl_async_objc_parse_from_module_info env img cb2 y) \<and>
         R (snd (pl_async_objc_parse_from_module_info env img cb1 x)) (snd (pl_async_objc_parse_from_module_info env img cb2 y))"
proof -
  have "R x y \<Longrightarrow> R (foldl (invoke cb1) x ms) (foldl (invoke cb2) y ms)" for ms x y
  proof (induction ms arbitrary: x y)
    case Nil
    then show ?case by simp
  next
    case (Cons m ms)
    have "R (invoke cb1 x m) (invoke cb2 y m)"
      using assms(1) Cons.prems by (cases m) (simp add: invoke_def cb_sim_def)
    from Cons.IH [OF this] show ?case by simp
  qed
  then show ?thesis using assms(2)
    by (simp add: pl_async_objc_parse_from_module_info_def split_beta)
qed

lemma parse_sim:
  assumes "cb_sim R cb1 cb2" "R x y"
  shows "sim_parse R (plcrash_async_objc_parse env img cache cb1 x) (plcrash_async_objc_parse env img cache cb2 y)"
proof (cases cache)
  case None
  then show ?thesis using assms(2) by (simp add: plcrash_async_objc_parse_def sim_parse_def)
next
  case (Some c)
  let ?r1 = "pl_async_objc_parse_from_module_info env img cb1 x"
  let ?r2 = "pl_async_objc_parse_from_module_info env img cb2 y"
  from module_info_sim [OF assms, of env img]
  have e: "fst ?r2 = fst ?r1" and R1: "R (snd ?r1) (snd ?r2)" by simp_all
  define x1 where "x1 = (if gotObjC2Info c then x else snd ?r1)"
  define y1 where "y1 = (if gotObjC2Info c then y else snd ?r2)"
  define e1 where "e1 = (if gotObjC2Info c then PLCRASH_ENOTFOUND else fst ?r1)"
  define tr where "tr = (if gotObjC2Info c then [] else [ObjC1_module_info])"
  have R: "R x1 y1" using assms(2) R1 by (simp add: x1_def y1_def)
  have p1: "plcrash_async_objc_parse env img cache cb1 x =
     (if e1 = PLCRASH_ENOTFOUND then
        (case pl_async_objc_parse_from_data_section env img c cb1 x1 of None \<Rightarrow> None
         | Some (err2, c2, ctx2) \<Rightarrow> Some (err2, Some (if err2 = PLCRASH_ESUCCESS then c2\<lparr>gotObjC2Info := True\<rparr> else c2),
               ctx2, tr @ [ObjC2_data_section]))
      else Some (e1, Some c, x1, tr))"
    using Some by (simp add: plcrash_async_objc_parse_def x1_def e1_def tr_def split_beta cong: option.case_cong)
  have p2: "plcrash_async_objc_parse env img cache cb2 y =
     (if e1 = PLCRASH_ENOTFOUND then
        (case pl_async_objc_parse_from_data_section env img c cb2 y1 of None \<Rightarrow> None
         | Some (err2, c2, ctx2) \<Rightarrow> Some (err2, Some (if err2 = PLCRASH_ESUCCESS then c2\<lparr>gotObjC2Info := True\<rparr> else c2),
               ctx2, tr @ [ObjC2_data_section]))
      else Some (e1, Some c, y1, tr))"
    using Some e by (simp add: plcrash_async_objc_parse_def y1_def e1_def tr_def split_beta cong: option.case_cong)
  show ?thesis
  proof (cases "e1 = PLCRASH_ENOTFOUND")
    case False
    then show ?thesis using R by (simp add: p1 p2 sim_parse_def)
  next
    case True
    show ?thesis
    proof (cases rule: option.rel_cases [OF data_section_sim [OF assms(1) R, of env img c, unfolded sim3_def]])
      case 1
      then show ?thesis using True by (simp add: p1 p2 sim_parse_def)
    next
      case (2 r s)
      obtain e c' x' where r: "r = (e, c', x')" by (cases r)
      obtain e2 c2 y' where s: "s = (e2, c2, y')" by (cases s)
      from 2 r s have eq: "e2 = e" "c2 = c'" and R': "R x' y'" by simp_all
      show ?thesis using True 2 r s eq R'
        by (simp add: p1 p2 sim_parse_def)
    qed
  qed
qed

subsection \<open>The methods a parse emits, and the two passes of the search\<close>

lemma record_sim: "cb_sim (\<lambda>x ms. x = foldl (invoke cb) ctx0 ms) cb record_method"
  by (simp add: cb_sim_def record_method_def invoke_def)

lemma parse_emits:
  assumes "plcrash_async_objc_parse env img cache record_method [] = Some (err, cache1, ms, tried)"
  shows "plcrash_async_objc_parse env img cache cb ctx = Some (err, cache1, foldl (invoke cb) ctx ms, tried)"
proof -
  have "sim_parse (\<lambda>x ms. x = foldl (invoke cb) ctx ms)
          (plcrash_async_objc_parse env img cache cb ctx)
          (plcrash_async_objc_parse env img cache record_method [])"
    by (rule parse_sim [OF record_sim]) simp
  then show ?thesis using assms
    by (auto simp: sim_parse_def elim!: option.rel_cases)
qed

lemma search_fold:
  "foldl (invoke pl_async_objc_find_method_search_callback) \<lparr>searchIMP = ip, bestIMP = b\<rparr> ms
     = \<lparr>searchIMP = ip, bestIMP = Max (insert b {i \<in> method_imp ` set ms. i \<le> ip})\<rparr>"
proof (induction ms arbitrary: b)
  case Nil
  then show ?case by simp
next
  case (Cons m ms)
  obtain isMeta cn mn i where m: "m = (isMeta, cn, mn, i)" by (cases m)
  let ?S = "{i \<in> method_imp ` set ms. i \<le> ip}"
  have fin: "finite ?S" by simp
  show ?case
  proof (cases "i \<le> ip")
    case True
    then have S: "{j \<in> method_imp ` set (m # ms). j \<le> ip} = insert i ?S"
      by (auto simp: m method_imp_def)
    have step: "invoke pl_async_objc_find_method_search_callback \<lparr>searchIMP = ip, bestIMP = b\<rparr> m
        = \<lparr>searchIMP = ip, bestIMP = max b i\<rparr>"
      using True by (auto simp: m invoke_def pl_async_objc_find_method_search_callback_def max_def)
    have "Max (insert (max b i) ?S) = Max (insert b (insert i ?S))"
    proof (cases "?S = {}")
      case True
      show ?thesis unfolding True by simp
    next
      case False
      with fin show ?thesis by (simp add: max.assoc)
    qed
    then show ?thesis unfolding S by (simp add: step Cons.IH del: Max_insert)
  next
    case False
    then have S: "{j \<in> method_imp ` set (m # ms). j \<le> ip} = ?S"
      by (auto simp: m method_imp_def)
    have step: "invoke pl_async_objc_find_method_search_callback \<lparr>searchIMP = ip, bestIMP = b\<rparr> m
        = \<lparr>searchIMP = ip, bestIMP = b\<rparr>"
      using False by (auto simp: m invoke_def pl_async_objc_find_method_search_callback_def)
    show ?thesis unfolding S by (simp add: step Cons.IH del: Max_insert)
  qed
qed


lemma call_fold_done:
  "foldl (invoke pl_async_objc_find_method_call_callback)
     \<lparr>call_searchIMP = b, outerCallback = None, outerCallbackCtx = u\<rparr> ms
   = \<lparr>call_searchIMP = b, outerCallback = None, outerCallbackCtx = u\<rparr>"
  by (induction ms) (auto simp: invoke_def pl_async_objc_find_method_call_callback_def)

lemma call_fold:
  "foldl (invoke pl_async_objc_find_method_call_callback)
     \<lparr>call_searchIMP = b, outerCallback = Some cb, outerCallbackCtx = u\<rparr> ms
   = (case first_with_imp b ms of
        None \<Rightarrow> \<lparr>call_searchIMP = b, outerCallback = Some cb, outerCallbackCtx = u\<rparr>
      | Some m \<Rightarrow> \<lparr>call_searchIMP = b, outerCallback = None, outerCallbackCtx = invoke cb u m\<rparr>)"
proof (induction ms)
  case Nil
  then show ?case by simp
next
  case (Cons m ms)
  obtain isMeta cn mn i where m: "m = (isMeta, cn, mn, i)" by (cases m)
  show ?case
  proof (cases "i = b")
    case True
    then have "invoke pl_async_objc_find_method_call_callback
        \<lparr>call_searchIMP = b, outerCallback = Some cb, outerCallbackCtx = u\<rparr> m
        = \<lparr>call_searchIMP = b, outerCallback = None, outerCallbackCtx = invoke cb u m\<rparr>"
      by (simp add: m invoke_def pl_async_objc_find_method_call_callback_def)
    then show ?thesis using True by (simp add: call_fold_done) (simp add: m method_imp_def)
  next
    case False
    then have "invoke pl_async_objc_find_method_call_callback
        \<lparr>call_searchIMP = b, outerCallback = Some cb, outerCallbackCtx = u\<rparr> m
        = \<lparr>call_searchIMP = b, outerCallback = Some cb, outerCallbackCtx = u\<rparr>"
      by (simp add: m invoke_def pl_async_objc_find_method_call_callback_def)
    then show ?thesis using False Cons.IH by (simp add: m method_imp_def)
  qed
qed


text \<open>
  Claim C10. In the second pass of \<open>plcrash_async_objc_find_method\<close> the caller's callback
  is invoked at most once: on the first emitted method whose IMP equals \<open>bestIMP\<close>, and on no
  later method, the same IMP or not. If no emitted method has that IMP it is not invoked.
\<close>

theorem find_method_call_pass:
  assumes "plcrash_async_objc_parse env img cache pl_async_objc_find_method_search_callback
             \<lparr>searchIMP = ip, bestIMP = 0\<rparr> = Some (PLCRASH_ESUCCESS, cache1, searchCtx, tried1)"
      and "bestIMP searchCtx \<noteq> 0"
      and "plcrash_async_objc_parse env img cache1 record_method [] = Some (err2, cache2, ms, tried2)"
  shows "plcrash_async_objc_find_method env img cache ip callback ctx
         = Some (err2, cache2,
                 case first_with_imp (bestIMP searchCtx) ms of
                   None \<Rightarrow> ctx
                 | Some m \<Rightarrow> invoke callback ctx m)"
  using assms(1,2)
    parse_emits [OF assms(3), of pl_async_objc_find_method_call_callback
      "\<lparr>call_searchIMP = bestIMP searchCtx, outerCallback = Some callback, outerCallbackCtx = ctx\<rparr>"]
  by (simp add: plcrash_async_objc_find_method_def call_fold split: option.splits)

subsection \<open>The flag gotObjC2Info\<close>




























subsection \<open>The example image, evaluated\<close>

lemma env_example_sel:
  "macho_map_section (env_example b) img kDataSegmentName kObjCConstSectionName
     = (PLCRASH_ESUCCESS, \<lparr>task_address = 0x3000, mobj_length = 0x1000\<rparr>)"
  "macho_map_section (env_example b) img kDataSegmentName kClassListSectionName
     = (PLCRASH_ESUCCESS, \<lparr>task_address = 0x5000, mobj_length = 24\<rparr>)"
  "macho_map_section (env_example b) img kDataSegmentName kObjCDataSectionName
     = (PLCRASH_ESUCCESS, \<lparr>task_address = 0x6000, mobj_length = 0x1000\<rparr>)"
  "mobject_remap_address (env_example b) mobj addr off len =
     (if task_address mobj \<le> addr
           \<and> unat addr + unat len \<le> unat (task_address mobj) + unat (mobj_length mobj)
        then Some (unat addr) else None)"
  "local_class_ptr_64 (env_example b) 0x5000 0 = 0x6400"
  "local_class_ptr_64 (env_example b) 0x5000 (Suc 0) = 0x6000"
  "local_class_ptr_64 (env_example b) 0x5000 2 = 0x6200"
  "vm_allocate_success (env_example b) = True"
  "objc1_module_info (env_example b) img = ([], PLCRASH_ENOTFOUND)"
  "local_class (env_example b) 0x6000 = \<lparr>class_32_isa = 0, class_32_data_rw = 0,
                              class_64_isa = 0x6100, class_64_data_rw = 0x8000\<rparr>"
  "local_class (env_example b) 0x6100 = \<lparr>class_32_isa = 0, class_32_data_rw = 0,
                              class_64_isa = 0x6100, class_64_data_rw = 0x8010\<rparr>"
  "local_class (env_example b) 0x6200 = \<lparr>class_32_isa = 0, class_32_data_rw = 0,
                              class_64_isa = 0x6300, class_64_data_rw = 0x8020\<rparr>"
  "local_class (env_example b) 0x6300 = \<lparr>class_32_isa = 0, class_32_data_rw = 0,
                              class_64_isa = 0x6300, class_64_data_rw = 0x8030\<rparr>"
  "local_class (env_example b) 0x6400 = \<lparr>class_32_isa = 0, class_32_data_rw = 0,
                              class_64_isa = 0x6500, class_64_data_rw = 0x8040\<rparr>"
  "local_class (env_example b) 0x6500 = \<lparr>class_32_isa = 0, class_32_data_rw = 0,
                              class_64_isa = 0x6500, class_64_data_rw = 0x8050\<rparr>"
  "local_data_ro (env_example b) 0x3100 = \<lparr>ro_32_name = 0, ro_32_baseMethods = 0,
                              ro_64_name = 0x3F10, ro_64_baseMethods = 0x3300\<rparr>"
  "local_list_header (env_example b) 0x3200 = \<lparr>header_entsize = 24, header_count = 2\<rparr>"
  "local_list_header (env_example b) 0x3300 = \<lparr>header_entsize = 24, header_count = 2\<rparr>"
  "local_method (env_example b) 0x3208 = \<lparr>method_32_name = 0, method_32_imp = 0,
                              method_64_name = 0x3F20, method_64_imp = 0x1100\<rparr>"
  "local_method (env_example b) 0x3220 = \<lparr>method_32_name = 0, method_32_imp = 0,
                              method_64_name = 0x3F30, method_64_imp = 0x1200\<rparr>"
  "local_method (env_example b) 0x3308 = \<lparr>method_32_name = 0, method_32_imp = 0,
                              method_64_name = 0x3F40, method_64_imp = 0x1200\<rparr>"
  "local_method (env_example b) 0x3320 = \<lparr>method_32_name = 0, method_32_imp = 0,
                              method_64_name = 0x3F50, method_64_imp = 0x1300\<rparr>"
  "read_data_rw_64 (env_example b) 0x8000 16 =
     (if b then (PLCRASH_ESUCCESS, \<lparr>rw_64_flags = 0x88000000, rw_64_data_ro = 0xA000\<rparr>)
      else (PLCRASH_EACCESS, \<lparr>rw_64_flags = 0, rw_64_data_ro = 0\<rparr>))"
  "read_data_rw_64 (env_example b) 0x8010 16 = (PLCRASH_ESUCCESS, \<lparr>rw_64_flags = 0, rw_64_data_ro = 0\<rparr>)"
  "read_data_rw_64 (env_example b) 0x8030 16 = (PLCRASH_ESUCCESS, \<lparr>rw_64_flags = 0, rw_64_data_ro = 0\<rparr>)"
  "read_data_rw_64 (env_example b) 0x8050 16 = (PLCRASH_ESUCCESS, \<lparr>rw_64_flags = 0, rw_64_data_ro = 0\<rparr>)"
  "read_data_rw_64 (env_example b) 0x8020 16 = (PLCRASH_ESUCCESS, \<lparr>rw_64_flags = 0x80000000, rw_64_data_ro = 0x3100\<rparr>)"
  "read_data_rw_64 (env_example b) 0x8040 16 = (PLCRASH_ESUCCESS, \<lparr>rw_64_flags = 0x80000000, rw_64_data_ro = 0x7777000\<rparr>)"
  "read_data_ro (env_example b) 0xA000 72 = (PLCRASH_ESUCCESS, \<lparr>ro_32_name = 0, ro_32_baseMethods = 0,
                                    ro_64_name = 0x3F00, ro_64_baseMethods = 0x3200\<rparr>)"
  "macho_string_init (env_example b) img 0x3F00 = (PLCRASH_ESUCCESS, ''ClassA'')"
  "macho_string_init (env_example b) img 0x3F10 = (PLCRASH_ESUCCESS, ''MyClass'')"
  "macho_string_init (env_example b) img 0x3F20 = (PLCRASH_ESUCCESS, ''bar'')"
  "macho_string_init (env_example b) img 0x3F30 = (PLCRASH_ESUCCESS, ''baz'')"
  "macho_string_init (env_example b) img 0x3F40 = (PLCRASH_ESUCCESS, ''foo:'')"
  "macho_string_init (env_example b) img 0x3F50 = (PLCRASH_ESUCCESS, ''qux'')"
  by (simp_all add: env_example_def kDataSegmentName_def kObjCConstSectionName_def
      kClassListSectionName_def kObjCDataSectionName_def)

lemma img_example_sel:
  "image_ptr img_example = 1" "m64 img_example" "swap32 img_example x = x" "swap64 img_example y = y"
  by (simp_all add: img_example_def)

lemma map_sections_fresh:
  "map_sections (env_example b) img_example cache_fresh = (PLCRASH_ESUCCESS, cache_mapped)"
  by (simp add: map_sections_def env_example_sel img_example_sel cache_fresh_def cache_mapped_def
      plcrash_async_objc_cache_init_def free_mapped_sections_def Let_def)

lemma cache_mapped_sel:
  "objcConstMobj cache_mapped = \<lparr>task_address = 0x3000, mobj_length = 0x1000\<rparr>"
  "classMobj cache_mapped = \<lparr>task_address = 0x5000, mobj_length = 24\<rparr>"
  "objcDataMobj cache_mapped = \<lparr>task_address = 0x6000, mobj_length = 0x1000\<rparr>"
  "classCacheSize cache_mapped = 0" "classCacheKeys cache_mapped = None"
  "classCacheValues cache_mapped = None" "lastImage cache_mapped = Some 1"
  "gotObjC2Info cache_mapped = False"
  by (simp_all add: cache_mapped_def cache_fresh_def plcrash_async_objc_cache_init_def)

lemma cache_after_A_sel:
  "objcConstMobj cache_after_A = \<lparr>task_address = 0x3000, mobj_length = 0x1000\<rparr>"
  "classMobj cache_after_A = \<lparr>task_address = 0x5000, mobj_length = 24\<rparr>"
  "objcDataMobj cache_after_A = \<lparr>task_address = 0x6000, mobj_length = 0x1000\<rparr>"
  "classCacheSize cache_after_A = 1024"
  "classCacheKeys cache_after_A = Some ((replicate 1024 0)[0 := 0x8000])"
  "classCacheValues cache_after_A = Some ((replicate 1024 0)[0 := 0xA000])"
  "lastImage cache_after_A = Some 1" "gotObjC2Info cache_after_A = False"
  by (simp_all add: cache_after_A_def cache_set_def cache_store_def cache_index_def Let_def cache_mapped_sel)

lemma cache_after_B_sel:
  "objcConstMobj cache_after_B = \<lparr>task_address = 0x3000, mobj_length = 0x1000\<rparr>"
  "classMobj cache_after_B = \<lparr>task_address = 0x5000, mobj_length = 24\<rparr>"
  "objcDataMobj cache_after_B = \<lparr>task_address = 0x6000, mobj_length = 0x1000\<rparr>"
  "classCacheSize cache_after_B = 1024"
  "classCacheKeys cache_after_B = Some ((replicate 1024 0)[0 := 0x8000, 8 := 0x8020])"
  "classCacheValues cache_after_B = Some ((replicate 1024 0)[0 := 0xA000, 8 := 0x3100])"
  "lastImage cache_after_B = Some 1" "gotObjC2Info cache_after_B = False"
  by (simp_all add: cache_after_B_def cache_set_def cache_store_def cache_index_def Let_def cache_after_A_sel)

lemma lookup_mapped: "cache_lookup cache_mapped k = 0"
  by (simp add: cache_lookup_def cache_mapped_sel)

lemma lookup_after_B:
  "cache_lookup cache_after_B 0x8030 = 0" "cache_lookup cache_after_B 0x8040 = 0"
  "cache_lookup cache_after_B 0x8050 = 0" "cache_lookup cache_after_B 0x8010 = 0"
  "cache_lookup cache_after_B 0x8000 = 0xA000" "cache_lookup cache_after_B 0x8020 = 0x3100"
  by (simp_all add: cache_lookup_def cache_index_def cache_after_B_sel Let_def)

lemma method_loop_numeral:
  "objc2_method_loop env img isMetaClass className callback entsize (numeral k) cursor err ctx =
    (let m = local_method env cursor;
         methodNamePtr = (if m64 img then ucast (swap64 img (method_64_name m))
                          else ucast (swap32 img (method_32_name m)))
     in case macho_string_init env img methodNamePtr of (err1, methodName) \<Rightarrow>
          if err1 \<noteq> PLCRASH_ESUCCESS then (err1, ctx)
          else
            let imp = (if m64 img then ucast (swap64 img (method_64_imp m))
                       else ucast (swap32 img (method_32_imp m)))
            in objc2_method_loop env img isMetaClass className callback entsize (pred_numeral k)
                 (cursor + entsize) err1 (callback isMetaClass className methodName imp ctx))"
  by (simp add: numeral_eq_Suc)


lemma cache_store_mobj:
  "objcConstMobj (cache_store c k v) = objcConstMobj c"
  "objcDataMobj (cache_store c k v) = objcDataMobj c"
  "classMobj (cache_store c k v) = classMobj c"
  "lastImage (cache_store c k v) = lastImage c"
  by (simp_all add: cache_store_def Let_def split: option.splits)

lemma cache_set_mobj:
  "objcConstMobj (cache_set a c k v) = objcConstMobj c"
  "objcDataMobj (cache_set a c k v) = objcDataMobj c"
  "classMobj (cache_set a c k v) = classMobj c"
  "lastImage (cache_set a c k v) = lastImage c"
  by (simp_all add: cache_set_def cache_store_mobj split: option.splits)

lemmas class_defs = objc2_class_dataPtr_def objc2_class_ro_length_def objc2_read_class_rw_def
  pl_async_objc_parse_objc2_class_def objc2_class_ro_methods_def RW_REALIZED_def RW_COPIED_RO_def Let_def

lemma ex_class_C:
  assumes "cache_lookup c 0x8040 = 0" "objcConstMobj c = \<lparr>task_address = 0x3000, mobj_length = 0x1000\<rparr>"
  shows "pl_async_objc_parse_objc2_class (env_example b) img_example c
           
           \<lparr>class_32_isa = 0, class_32_data_rw = 0, class_64_isa = 0x6500, class_64_data_rw = 0x8040\<rparr> m cb ctx = Some (PLCRASH_ESUCCESS, c, ctx)"
  using assms by (simp add: class_defs env_example_sel img_example_sel)

lemma ex_unrealized:
  "cache_lookup c 0x8010 = 0 \<Longrightarrow> pl_async_objc_parse_objc2_class (env_example b) img_example c
           
           \<lparr>class_32_isa = 0, class_32_data_rw = 0, class_64_isa = 0x6100, class_64_data_rw = 0x8010\<rparr> m cb ctx = Some (PLCRASH_ESUCCESS, c, ctx)"
  "cache_lookup c 0x8030 = 0 \<Longrightarrow> pl_async_objc_parse_objc2_class (env_example b) img_example c
           
           \<lparr>class_32_isa = 0, class_32_data_rw = 0, class_64_isa = 0x6300, class_64_data_rw = 0x8030\<rparr> m cb ctx = Some (PLCRASH_ESUCCESS, c, ctx)"
  "cache_lookup c 0x8050 = 0 \<Longrightarrow> pl_async_objc_parse_objc2_class (env_example b) img_example c
           
           \<lparr>class_32_isa = 0, class_32_data_rw = 0, class_64_isa = 0x6500, class_64_data_rw = 0x8050\<rparr> m cb ctx = Some (PLCRASH_ESUCCESS, c, ctx)"
  by (simp_all add: class_defs env_example_sel img_example_sel)


lemma ex_class_A_methods:
  assumes "objcConstMobj c = \<lparr>task_address = 0x3000, mobj_length = 0x1000\<rparr>"
  shows "objc2_class_ro_methods (env_example b) img_example c
     (Some \<lparr>ro_32_name = 0, ro_32_baseMethods = 0, ro_64_name = 0x3F00, ro_64_baseMethods = 0x3200\<rparr>)
     m record_method ms
    = Some (PLCRASH_ESUCCESS, c, ms @ [(m, ''ClassA'', ''bar'', 0x1100), (m, ''ClassA'', ''baz'', 0x1200)])"
  using assms
  by (simp add: objc2_class_ro_methods_def Let_def env_example_sel img_example_sel record_method_def
      method_loop_numeral)

lemma ex_class_B_methods:
  assumes "objcConstMobj c = \<lparr>task_address = 0x3000, mobj_length = 0x1000\<rparr>"
  shows "objc2_class_ro_methods (env_example b) img_example c
     (Some \<lparr>ro_32_name = 0, ro_32_baseMethods = 0, ro_64_name = 0x3F10, ro_64_baseMethods = 0x3300\<rparr>)
     m record_method ms
    = Some (PLCRASH_ESUCCESS, c, ms @ [(m, ''MyClass'', ''foo:'', 0x1200), (m, ''MyClass'', ''qux'', 0x1300)])"
  using assms
  by (simp add: objc2_class_ro_methods_def Let_def env_example_sel img_example_sel record_method_def
      method_loop_numeral)

lemmas class_head_defs = objc2_class_dataPtr_def objc2_class_ro_length_def objc2_read_class_rw_def
  pl_async_objc_parse_objc2_class_def RW_REALIZED_def RW_COPIED_RO_def Let_def

lemma ex_class_A_miss:
  assumes "cache_lookup c 0x8000 = 0" "objcConstMobj c = \<lparr>task_address = 0x3000, mobj_length = 0x1000\<rparr>"
  shows "pl_async_objc_parse_objc2_class (env_example True) img_example c
   
           \<lparr>class_32_isa = 0, class_32_data_rw = 0, class_64_isa = 0x6100, class_64_data_rw = 0x8000\<rparr> m record_method ms =
     Some (PLCRASH_ESUCCESS, cache_set True c 0x8000 0xA000,
           ms @ [(m, ''ClassA'', ''bar'', 0x1100), (m, ''ClassA'', ''baz'', 0x1200)])"
  using assms
  by (simp add: class_head_defs env_example_sel img_example_sel ex_class_A_methods cache_set_mobj)

lemma ex_class_A_hit:
  assumes "cache_lookup c 0x8000 = 0xA000" "objcConstMobj c = \<lparr>task_address = 0x3000, mobj_length = 0x1000\<rparr>"
  shows "pl_async_objc_parse_objc2_class (env_example b) img_example c
   
           \<lparr>class_32_isa = 0, class_32_data_rw = 0, class_64_isa = 0x6100, class_64_data_rw = 0x8000\<rparr> m record_method ms =
     Some (PLCRASH_ESUCCESS, c, ms @ [(m, ''ClassA'', ''bar'', 0x1100), (m, ''ClassA'', ''baz'', 0x1200)])"
  using assms
  by (simp add: class_head_defs env_example_sel img_example_sel ex_class_A_methods)

lemma ex_class_B_miss:
  assumes "cache_lookup c 0x8020 = 0" "objcConstMobj c = \<lparr>task_address = 0x3000, mobj_length = 0x1000\<rparr>"
  shows "pl_async_objc_parse_objc2_class (env_example b) img_example c
   
           \<lparr>class_32_isa = 0, class_32_data_rw = 0, class_64_isa = 0x6300, class_64_data_rw = 0x8020\<rparr> m record_method ms =
     Some (PLCRASH_ESUCCESS, cache_set True c 0x8020 0x3100,
           ms @ [(m, ''MyClass'', ''foo:'', 0x1200), (m, ''MyClass'', ''qux'', 0x1300)])"
  using assms
  by (simp add: class_head_defs env_example_sel img_example_sel ex_class_B_methods cache_set_mobj)

lemma ex_class_B_hit:
  assumes "cache_lookup c 0x8020 = 0x3100" "objcConstMobj c = \<lparr>task_address = 0x3000, mobj_length = 0x1000\<rparr>"
  shows "pl_async_objc_parse_objc2_class (env_example b) img_example c
   
           \<lparr>class_32_isa = 0, class_32_data_rw = 0, class_64_isa = 0x6300, class_64_data_rw = 0x8020\<rparr> m record_method ms =
     Some (PLCRASH_ESUCCESS, c, ms @ [(m, ''MyClass'', ''foo:'', 0x1200), (m, ''MyClass'', ''qux'', 0x1300)])"
  using assms
  by (simp add: class_head_defs env_example_sel img_example_sel ex_class_B_methods)

lemmas iter_defs = objc2_classlist_iteration_def objc2_classlist_metaclass_def Let_def

lemma ex_iteration_C:
  assumes "cache_lookup c 0x8040 = 0" "cache_lookup c 0x8050 = 0"
    "objcConstMobj c = \<lparr>task_address = 0x3000, mobj_length = 0x1000\<rparr>"
    "objcDataMobj c = \<lparr>task_address = 0x6000, mobj_length = 0x1000\<rparr>"
  shows "objc2_classlist_iteration (env_example b) img_example 0x5000 cb 0 err c ctx
       = Some (True, PLCRASH_ESUCCESS, c, ctx)"
  using assms
  by (simp add: iter_defs env_example_sel img_example_sel ex_class_C ex_unrealized)



lemma upt_0_3: "[0..<3] = [0, Suc 0, 2]"
  by (simp add: upt_conv_Cons numeral_3_eq_3 numeral_2_eq_2)

lemma ex_iteration_A_miss:
  assumes "cache_lookup c 0x8000 = 0" "cache_lookup (cache_set True c 0x8000 0xA000) 0x8010 = 0"
    "objcConstMobj c = \<lparr>task_address = 0x3000, mobj_length = 0x1000\<rparr>"
    "objcDataMobj c = \<lparr>task_address = 0x6000, mobj_length = 0x1000\<rparr>"
  shows "objc2_classlist_iteration (env_example True) img_example 0x5000 record_method (Suc 0) err c ms
       = Some (True, PLCRASH_ESUCCESS, cache_set True c 0x8000 0xA000, ms @ methods_A)"
  using assms
  by (simp add: iter_defs env_example_sel img_example_sel ex_class_A_miss ex_unrealized cache_set_mobj methods_A_def)

lemma ex_iteration_A_hit:
  assumes "cache_lookup c 0x8000 = 0xA000" "cache_lookup c 0x8010 = 0"
    "objcConstMobj c = \<lparr>task_address = 0x3000, mobj_length = 0x1000\<rparr>"
    "objcDataMobj c = \<lparr>task_address = 0x6000, mobj_length = 0x1000\<rparr>"
  shows "objc2_classlist_iteration (env_example b) img_example 0x5000 record_method (Suc 0) err c ms
       = Some (True, PLCRASH_ESUCCESS, c, ms @ methods_A)"
  using assms
  by (simp add: iter_defs env_example_sel img_example_sel ex_class_A_hit ex_unrealized methods_A_def)

lemma ex_iteration_B_miss:
  assumes "cache_lookup c 0x8020 = 0" "cache_lookup (cache_set True c 0x8020 0x3100) 0x8030 = 0"
    "objcConstMobj c = \<lparr>task_address = 0x3000, mobj_length = 0x1000\<rparr>"
    "objcDataMobj c = \<lparr>task_address = 0x6000, mobj_length = 0x1000\<rparr>"
  shows "objc2_classlist_iteration (env_example b) img_example 0x5000 record_method 2 err c ms
       = Some (True, PLCRASH_ESUCCESS, cache_set True c 0x8020 0x3100, ms @ methods_B)"
  using assms
  by (simp add: iter_defs env_example_sel img_example_sel ex_class_B_miss ex_unrealized cache_set_mobj methods_B_def)

lemma ex_iteration_B_hit:
  assumes "cache_lookup c 0x8020 = 0x3100" "cache_lookup c 0x8030 = 0"
    "objcConstMobj c = \<lparr>task_address = 0x3000, mobj_length = 0x1000\<rparr>"
    "objcDataMobj c = \<lparr>task_address = 0x6000, mobj_length = 0x1000\<rparr>"
  shows "objc2_classlist_iteration (env_example b) img_example 0x5000 record_method 2 err c ms
       = Some (True, PLCRASH_ESUCCESS, c, ms @ methods_B)"
  using assms
  by (simp add: iter_defs env_example_sel img_example_sel ex_class_B_hit ex_unrealized methods_B_def)

lemma lookup_after_A:
  "cache_lookup cache_after_A 0x8010 = 0" "cache_lookup cache_after_A 0x8020 = 0"
  "cache_lookup cache_after_A 0x8000 = 0xA000"
  by (simp_all add: cache_lookup_def cache_index_def cache_after_A_sel Let_def)

lemma ex_loop_first:
  "objc2_classlist_loop (env_example True) img_example 0x5000 record_method [0, Suc 0, 2] err cache_mapped ms
     = Some (PLCRASH_ESUCCESS, cache_after_B, ms @ methods_A @ methods_B)"
  by (simp add: ex_iteration_C ex_iteration_A_miss ex_iteration_B_miss lookup_mapped cache_mapped_sel
      cache_after_A_def [symmetric] cache_after_B_def [symmetric] lookup_after_A lookup_after_B
      cache_after_A_sel)



lemma ex_data_section_first:
  "pl_async_objc_parse_from_data_section (env_example True) img_example cache_fresh record_method ms
     = Some (PLCRASH_ESUCCESS, cache_after_B, ms @ methods_A @ methods_B)"
  by (simp add: pl_async_objc_parse_from_data_section_def map_sections_fresh env_example_sel
      img_example_sel cache_mapped_sel upt_0_3 ex_loop_first Let_def
      del: objc2_classlist_loop.simps)



lemma cache_parsed_sel:
  "objcConstMobj cache_parsed = \<lparr>task_address = 0x3000, mobj_length = 0x1000\<rparr>"
  "classMobj cache_parsed = \<lparr>task_address = 0x5000, mobj_length = 24\<rparr>"
  "objcDataMobj cache_parsed = \<lparr>task_address = 0x6000, mobj_length = 0x1000\<rparr>"
  "lastImage cache_parsed = Some 1" "gotObjC2Info cache_parsed = True"
  "cache_parsed\<lparr>gotObjC2Info := True\<rparr> = cache_parsed"
  by (simp_all add: cache_parsed_def cache_after_B_sel)

lemma lookup_parsed: "cache_lookup cache_parsed k = cache_lookup cache_after_B k"
  by (simp add: cache_parsed_def cache_lookup_def cache_index_def Let_def cong: option.case_cong)

lemma ex_loop_second:
  "objc2_classlist_loop (env_example b) img_example 0x5000 record_method [0, Suc 0, 2] err cache_parsed ms
     = Some (PLCRASH_ESUCCESS, cache_parsed, ms @ methods_A @ methods_B)"
  by (simp add: ex_iteration_C ex_iteration_A_hit ex_iteration_B_hit lookup_parsed lookup_after_B
      cache_parsed_sel)

lemma map_sections_parsed:
  "map_sections (env_example b) img_example cache_parsed = (PLCRASH_ESUCCESS, cache_parsed)"
  by (simp add: map_sections_def img_example_sel cache_parsed_sel)

lemma ex_data_section_second:
  "pl_async_objc_parse_from_data_section (env_example b) img_example cache_parsed record_method ms
     = Some (PLCRASH_ESUCCESS, cache_parsed, ms @ methods_A @ methods_B)"
  by (simp add: pl_async_objc_parse_from_data_section_def map_sections_parsed env_example_sel
      img_example_sel cache_parsed_sel upt_0_3 ex_loop_second Let_def
      del: objc2_classlist_loop.simps)

lemma cache_fresh_got: "gotObjC2Info cache_fresh = False"
  by (simp add: cache_fresh_def plcrash_async_objc_cache_init_def)

lemma ex_module_info:
  "pl_async_objc_parse_from_module_info (env_example b) img_example cb ctx = (PLCRASH_ENOTFOUND, ctx)"
  by (simp add: pl_async_objc_parse_from_module_info_def env_example_sel)

lemma ex_parse_first:
  "plcrash_async_objc_parse (env_example True) img_example (Some cache_fresh) record_method ms
     = Some (PLCRASH_ESUCCESS, Some cache_parsed, ms @ methods_A @ methods_B,
             [ObjC1_module_info, ObjC2_data_section])"
  by (simp add: plcrash_async_objc_parse_def cache_fresh_got ex_module_info ex_data_section_first
      cache_parsed_def)

lemma ex_parse_second:
  "plcrash_async_objc_parse (env_example b) img_example (Some cache_parsed) record_method ms
     = Some (PLCRASH_ESUCCESS, Some cache_parsed, ms @ methods_A @ methods_B, [ObjC2_data_section])"
  by (simp add: plcrash_async_objc_parse_def cache_parsed_sel ex_data_section_second)


subsection \<open>The cache, and the failures of one class\<close>

lemma cache_index_less: "0 < classCacheSize c \<Longrightarrow> cache_index c k < classCacheSize c"
  by (simp add: cache_index_def)

lemma cache_wf_cases:
  assumes "cache_wf c"
  obtains (unallocated) "classCacheKeys c = None" "classCacheValues c = None" "classCacheSize c = 0"
  | (allocated) ks vs where "classCacheKeys c = Some ks" "classCacheValues c = Some vs"
      "0 < classCacheSize c" "length ks = classCacheSize c" "length vs = classCacheSize c"
  using assms by (auto simp: cache_wf_def split: option.splits)

lemma cache_set_wf: "cache_wf c \<Longrightarrow> cache_wf (cache_set a c k v)"
  by (auto simp: cache_wf_def cache_set_def cache_store_def Let_def cache_index_def split: option.splits)

lemma cache_set_free:
  assumes "cache_wf c" "\<not> slot_occupied c k"
  shows "cache_lookup (cache_set True c k v) k = v"
  using assms(1)
proof (cases rule: cache_wf_cases)
  case unallocated
  have "unat (drop_bit 2 k) mod 1024 < 1024" by simp
  then show ?thesis using unallocated
    by (simp add: cache_set_def cache_store_def cache_lookup_def cache_index_def Let_def)
next
  case (allocated ks vs)
  then show ?thesis using assms(2) cache_index_less [of c k]
    by (simp add: cache_set_def cache_store_def cache_lookup_def Let_def slot_occupied_def cache_index_def)
qed

lemma cache_set_occupied:
  assumes "slot_occupied c k"
  shows "cache_set a c k v = c"
  using assms
  by (auto simp: cache_set_def cache_store_def Let_def slot_occupied_def split: option.splits)

lemma cache_set_alloc_fails:
  assumes "cache_wf c" "classCacheKeys c = None"
  shows "cache_lookup (cache_set False c k v) k = 0"
  using assms by (simp add: cache_set_def cache_lookup_def)

lemma cache_set_allocated:
  assumes "cache_wf c" "classCacheKeys c \<noteq> None" "\<not> slot_occupied c k"
  shows "cache_lookup (cache_set a c k v) k = v"
  using assms(1)
proof (cases rule: cache_wf_cases)
  case unallocated
  with assms(2) show ?thesis by simp
next
  case (allocated ks vs)
  then show ?thesis using assms(3) cache_index_less [of c k]
    by (simp add: cache_set_def cache_store_def cache_lookup_def Let_def slot_occupied_def cache_index_def)
qed

lemma cache_set_alloc_fails_eq:
  assumes "cache_wf c" "classCacheKeys c = None"
  shows "cache_set False c k v = c"
  using assms by (auto simp: cache_set_def cache_wf_def split: option.splits)

lemma cache_set_lookup:
  assumes "cache_wf c" "cache_lookup c k = 0"
  shows "cache_lookup (cache_set a c k v) k =
     (if slot_occupied c k \<or> (classCacheKeys c = None \<and> \<not> a) then 0 else v)"
proof (cases "slot_occupied c k")
  case True
  then show ?thesis using assms(2) by (simp add: cache_set_occupied)
next
  case False
  show ?thesis
  proof (cases "classCacheKeys c = None")
    case True
    then show ?thesis using False assms(1) cache_set_free [OF assms(1) False, of v]
      by (cases a) (simp_all add: cache_set_alloc_fails)
  next
    case n: False
    with False show ?thesis by (auto simp add: cache_set_allocated [OF assms(1) n False])
  qed
qed

text \<open>
  Claim C7, as amended. For every cache state, key k and value v: \<open>cache_set(k, v)\<close> followed
  by \<open>cache_lookup(k)\<close> returns v unless the bucket \<open>(k >> 2) mod size\<close> is already
  occupied, by any key other than 0 (k itself included), or the cache cannot be allocated;
  \<open>cache_set\<close> on an occupied bucket leaves the cache as it is, the key and the value of the
  bucket with it; after a failed allocation the lookup returns 0.
\<close>

theorem cache_set_first_writer_wins:
  assumes "cache_wf c"
  shows "(\<not> slot_occupied c k \<longrightarrow> cache_lookup (cache_set True c k v) k = v) \<and>
         (slot_occupied c k \<longrightarrow> cache_set a c k v = c) \<and>
         (classCacheKeys c = None \<longrightarrow> cache_lookup (cache_set False c k v) k = 0) \<and>
         cache_wf (cache_set a c k v)"
  using assms
  by (simp add: cache_set_free cache_set_occupied cache_set_alloc_fails cache_set_wf)

lemma cache_fresh_sel:
  "classCacheSize cache_fresh = 0" "classCacheKeys cache_fresh = None" "classCacheValues cache_fresh = None"
  by (simp_all add: cache_fresh_def plcrash_async_objc_cache_init_def)

lemma cache_fresh_wf: "cache_wf cache_fresh"
  by (simp add: cache_wf_def cache_fresh_sel)

lemma cache_one_entry_sel:
  "classCacheSize cache_one_entry = 1024"
  "classCacheKeys cache_one_entry = Some ((replicate 1024 0)[0 := 0x1000])"
  "classCacheValues cache_one_entry = Some ((replicate 1024 0)[0 := 0x2000])"
  by (simp_all add: cache_one_entry_def cache_set_def cache_store_def cache_index_def Let_def cache_fresh_sel)

text \<open>The amended claim at a fresh cache and at a cache with one entry.\<close>

theorem cache_set_first_writer_wins_witness:
  "cache_wf cache_fresh \<and> \<not> slot_occupied cache_fresh 0x1000 \<and>
   cache_lookup (cache_set True cache_fresh 0x1000 0x2000) 0x1000 = 0x2000 \<and>
   classCacheKeys cache_fresh = None \<and>
   cache_lookup (cache_set False cache_fresh 0x1000 0x2000) 0x1000 = 0 \<and>
   cache_wf cache_one_entry \<and> slot_occupied cache_one_entry 0x2000 \<and>
   cache_set True cache_one_entry 0x2000 0x3000 = cache_one_entry"
proof -
  have a: "\<not> slot_occupied cache_fresh 0x1000"
    by (simp add: slot_occupied_def cache_fresh_sel)
  have b: "slot_occupied cache_one_entry 0x2000"
    by (simp add: slot_occupied_def cache_one_entry_sel cache_index_def)
  have c: "cache_wf cache_one_entry"
    by (simp add: cache_wf_def cache_one_entry_sel)
  show ?thesis
    using cache_set_first_writer_wins [OF cache_fresh_wf, of "0x1000" "0x2000" True]
      cache_set_first_writer_wins [OF c, of "0x2000" "0x3000" True]
      a b c cache_fresh_wf
    by (simp add: cache_fresh_sel)
qed

text \<open>
  Claim C7 as stated fails where the bucket is occupied by the same key: the bucket of
  0x1000 holds the key 0x1000 and the value 0x2000, no different key, and after
  \<open>cache_set(0x1000, 0x3000)\<close> the lookup of 0x1000 returns 0x2000, not 0x3000.
\<close>

theorem cache_set_same_key_keeps_old_value:
  "cache_wf cache_one_entry \<and>
   classCacheKeys cache_one_entry = Some ((replicate 1024 0)[0 := 0x1000]) \<and>
   cache_index cache_one_entry 0x1000 = 0 \<and>
   cache_lookup cache_one_entry 0x1000 = 0x2000 \<and>
   cache_lookup (cache_set True cache_one_entry 0x1000 0x3000) 0x1000 = 0x2000"
  by (simp add: cache_wf_def cache_one_entry_sel cache_index_def cache_lookup_def cache_set_def
      cache_store_def Let_def)

lemma dataPtr_bits:
  "\<not> bit (objc2_class_dataPtr img cls :: 'a::len word) 0 \<and>
   \<not> bit (objc2_class_dataPtr img cls :: 'a::len word) (Suc 0) \<and>
   drop_bit 2 (objc2_class_dataPtr img cls :: 'a::len word)
     = drop_bit 2 (if m64 img then ucast (swap64 img (class_64_data_rw cls))
                   else ucast (swap32 img (class_32_data_rw cls)) :: 'a word)"
  apply (intro conjI)
    apply (simp add: objc2_class_dataPtr_def bit_simps)
   apply (simp add: objc2_class_dataPtr_def bit_simps)
  apply (rule bit_word_eqI)
  apply (auto simp add: objc2_class_dataPtr_def bit_simps)
  done

lemma and_bit_zero: "(w AND push_bit n 1 = 0) \<longleftrightarrow> \<not> bit w n" for w :: "'b::len word"
  by (metis and_exp_eq_0_iff_not_bit push_bit_of_1)

lemma class_miss_unfold:
  assumes "cache_lookup c (objc2_class_dataPtr img cls) = 0"
      and "objc2_read_class_rw env img (objc2_class_dataPtr img cls) = (PLCRASH_ESUCCESS, flags, data_ro_addr)"
  shows "pl_async_objc_parse_objc2_class env img c cls isMetaClass callback ctx =
     (if \<not> bit flags 31 then Some (PLCRASH_ESUCCESS, c, ctx)
      else if bit flags 27 then
        (if fst (read_data_ro env data_ro_addr (objc2_class_ro_length img)) \<noteq> PLCRASH_ESUCCESS
                 then Some (PLCRASH_ESUCCESS, c, ctx)
                 else objc2_class_ro_methods env img
                        (cache_set (vm_allocate_success env) c (objc2_class_dataPtr img cls) data_ro_addr)
                        (Some (snd (read_data_ro env data_ro_addr (objc2_class_ro_length img))))
                        isMetaClass callback ctx)
      else (case mobject_remap_address env (objcConstMobj c) data_ro_addr 0
                        (objc2_class_ro_length img) of
                   None \<Rightarrow> Some (PLCRASH_ESUCCESS, c, ctx)
                 | Some p \<Rightarrow>
                     objc2_class_ro_methods env img
                       (cache_set (vm_allocate_success env) c (objc2_class_dataPtr img cls) data_ro_addr)
                       (Some (local_data_ro env p)) isMetaClass callback ctx))"
proof -
  have r31: "(flags AND RW_REALIZED = 0) \<longleftrightarrow> \<not> bit flags 31"
    by (simp only: RW_REALIZED_def and_bit_zero)
  have r27: "(flags AND RW_COPIED_RO = 0) \<longleftrightarrow> \<not> bit flags 27"
    by (simp only: RW_COPIED_RO_def and_bit_zero)
  show ?thesis
    using assms
    by (simp add: pl_async_objc_parse_objc2_class_def Let_def r31 r27 split_beta cong: option.case_cong)
qed

text \<open>
  Claim C4, as amended. For an ObjC2 class whose \<open>class_rw\<close> is read on a cache miss, at
  the \<open>data_rw\<close> address of the class with its low two bits cleared: if bit 31
  (\<open>RW_REALIZED\<close>) of the flags is clear, the class is skipped and the callback is not
  invoked; otherwise, if bit 27 (\<open>RW_COPIED_RO\<close>) is set the \<open>class_ro\<close> data is what the
  memory reader copies, \<open>class_ro_length\<close> bytes, and if bit 27 is clear it is what the remap
  inside the \<open>__objc_const\<close> memory object gives (when the copy or the remap fails the class
  is skipped and nothing is stored). In both cases, once the data is obtained, the \<open>data_ro\<close>
  address is handed to \<open>cache_set\<close> under the masked \<open>data_rw\<close> address, and this is the
  only change of the context object. A lookup of the key then returns the address when the
  bucket of the key was free and the cache arrays are allocated or can be allocated, and
  returns 0 otherwise: when the bucket is occupied, or the arrays are not allocated and the
  allocation fails, the class is parsed all the same and the context object is left as it
  was.
\<close>

theorem objc2_class_cache_miss:
  fixes c :: "'a::len word plcrash_async_objc_cache"
  assumes "cache_wf c"
      and "cache_lookup c (objc2_class_dataPtr img cls) = 0"
      and "objc2_read_class_rw env img (objc2_class_dataPtr img cls) = (PLCRASH_ESUCCESS, flags, data_ro_addr)"
  shows "(\<not> bit (objc2_class_dataPtr img cls :: 'a word) 0 \<and>
          \<not> bit (objc2_class_dataPtr img cls :: 'a word) (Suc 0) \<and>
          drop_bit 2 (objc2_class_dataPtr img cls :: 'a word)
            = drop_bit 2 (if m64 img then ucast (swap64 img (class_64_data_rw cls))
                          else ucast (swap32 img (class_32_data_rw cls)))) \<and>
         (objc2_class_ro_length img :: 'a word) = (if m64 img then 72 else 40) \<and>
         (\<not> bit flags 31 \<longrightarrow>
            pl_async_objc_parse_objc2_class env img c cls isMetaClass callback ctx
              = Some (PLCRASH_ESUCCESS, c, ctx)) \<and>
         (bit flags 31 \<and> bit flags 27 \<longrightarrow>
            pl_async_objc_parse_objc2_class env img c cls isMetaClass callback ctx
              = (if fst (read_data_ro env data_ro_addr (objc2_class_ro_length img)) \<noteq> PLCRASH_ESUCCESS
                 then Some (PLCRASH_ESUCCESS, c, ctx)
                 else objc2_class_ro_methods env img
                        (cache_set (vm_allocate_success env) c (objc2_class_dataPtr img cls) data_ro_addr)
                        (Some (snd (read_data_ro env data_ro_addr (objc2_class_ro_length img))))
                        isMetaClass callback ctx)) \<and>
         (bit flags 31 \<and> \<not> bit flags 27 \<longrightarrow>
            pl_async_objc_parse_objc2_class env img c cls isMetaClass callback ctx
              = (case mobject_remap_address env (objcConstMobj c) data_ro_addr 0
                        (objc2_class_ro_length img) of
                   None \<Rightarrow> Some (PLCRASH_ESUCCESS, c, ctx)
                 | Some p \<Rightarrow>
                     objc2_class_ro_methods env img
                       (cache_set (vm_allocate_success env) c (objc2_class_dataPtr img cls) data_ro_addr)
                       (Some (local_data_ro env p)) isMetaClass callback ctx)) \<and>
         (\<forall>e c1 ctx1.
            bit flags 31 \<and>
            (if bit flags 27
             then fst (read_data_ro env data_ro_addr (objc2_class_ro_length img)) = PLCRASH_ESUCCESS
             else mobject_remap_address env (objcConstMobj c) data_ro_addr 0
                    (objc2_class_ro_length img) \<noteq> None) \<and>
            pl_async_objc_parse_objc2_class env img c cls isMetaClass callback ctx = Some (e, c1, ctx1)
            \<longrightarrow> c1 = cache_set (vm_allocate_success env) c (objc2_class_dataPtr img cls) data_ro_addr
                \<and> cache_wf c1
                \<and> cache_lookup c1 (objc2_class_dataPtr img cls)
                    = (if slot_occupied c (objc2_class_dataPtr img cls)
                          \<or> (classCacheKeys c = None \<and> \<not> vm_allocate_success env)
                       then 0 else data_ro_addr)
                \<and> (slot_occupied c (objc2_class_dataPtr img cls)
                       \<or> (classCacheKeys c = None \<and> \<not> vm_allocate_success env) \<longrightarrow> c1 = c))"
proof -
  note unfold = class_miss_unfold [OF assms(2,3), of isMetaClass callback ctx]
  let ?k = "objc2_class_dataPtr img cls :: 'a word"
  let ?full = "slot_occupied c ?k \<or> (classCacheKeys c = None \<and> \<not> vm_allocate_success env)"
  have same: "?full \<Longrightarrow> cache_set (vm_allocate_success env) c ?k data_ro_addr = c"
    using assms(1) by (auto simp add: cache_set_occupied cache_set_alloc_fails_eq)
  have stored: "\<forall>e c1 ctx1.
            bit flags 31 \<and>
            (if bit flags 27
             then fst (read_data_ro env data_ro_addr (objc2_class_ro_length img)) = PLCRASH_ESUCCESS
             else mobject_remap_address env (objcConstMobj c) data_ro_addr 0
                    (objc2_class_ro_length img) \<noteq> None) \<and>
            pl_async_objc_parse_objc2_class env img c cls isMetaClass callback ctx = Some (e, c1, ctx1)
            \<longrightarrow> c1 = cache_set (vm_allocate_success env) c ?k data_ro_addr
                \<and> cache_wf c1
                \<and> cache_lookup c1 ?k = (if ?full then 0 else data_ro_addr)
                \<and> (?full \<longrightarrow> c1 = c)"
  proof (intro allI impI)
    fix e c1 ctx1
    assume h: "bit flags 31 \<and>
            (if bit flags 27
             then fst (read_data_ro env data_ro_addr (objc2_class_ro_length img)) = PLCRASH_ESUCCESS
             else mobject_remap_address env (objcConstMobj c) data_ro_addr 0
                    (objc2_class_ro_length img) \<noteq> None) \<and>
            pl_async_objc_parse_objc2_class env img c cls isMetaClass callback ctx = Some (e, c1, ctx1)"
    then have "\<exists>ro. objc2_class_ro_methods env img
                 (cache_set (vm_allocate_success env) c ?k data_ro_addr)
                 ro isMetaClass callback ctx = Some (e, c1, ctx1)"
      by (auto simp: unfold split: if_splits option.splits)
    then have c1: "c1 = cache_set (vm_allocate_success env) c ?k data_ro_addr"
      by (auto dest: ro_methods_cache)
    have wf: "cache_wf c1" unfolding c1 using assms(1) by (rule cache_set_wf)
    have lk: "cache_lookup c1 ?k = (if ?full then 0 else data_ro_addr)"
      unfolding c1 by (rule cache_set_lookup [OF assms(1,2)])
    have sm: "?full \<longrightarrow> c1 = c" unfolding c1 using same by blast
    from c1 wf lk sm
    show "c1 = cache_set (vm_allocate_success env) c ?k data_ro_addr
                \<and> cache_wf c1
                \<and> cache_lookup c1 ?k = (if ?full then 0 else data_ro_addr)
                \<and> (?full \<longrightarrow> c1 = c)"
      by (intro conjI)
  qed
  show ?thesis
    by (rule conjI, rule dataPtr_bits, rule conjI, simp add: objc2_class_ro_length_def,
        rule conjI, simp add: unfold, rule conjI, simp add: unfold,
        rule conjI, simp add: unfold, rule stored)
qed




lemma cache_mapped_wf: "cache_wf cache_mapped"
  by (simp add: cache_wf_def cache_mapped_sel)

lemma ex_read_rw:
  "objc2_read_class_rw (env_example True) img_example 0x8000 = (PLCRASH_ESUCCESS, 0x88000000, 0xA000)"
  "objc2_read_class_rw (env_example False) img_example 0x8000 = (PLCRASH_EACCESS, 0, 0)"
  "objc2_read_class_rw (env_example b) img_example 0x8010 = (PLCRASH_ESUCCESS, 0, 0)"
  "objc2_read_class_rw (env_example b) img_example 0x8020 = (PLCRASH_ESUCCESS, 0x80000000, 0x3100)"
  "objc2_read_class_rw (env_example b) img_example 0x8040 = (PLCRASH_ESUCCESS, 0x80000000, 0x7777000)"
  by (simp_all add: objc2_read_class_rw_def env_example_sel img_example_sel)

lemma ex_dataPtr:
  "objc2_class_dataPtr img_example (local_class (env_example b) 0x6000) = (0x8000 :: 64 word)"
  "objc2_class_dataPtr img_example (local_class (env_example b) 0x6100) = (0x8010 :: 64 word)"
  "objc2_class_dataPtr img_example (local_class (env_example b) 0x6200) = (0x8020 :: 64 word)"
  "objc2_class_dataPtr img_example (local_class (env_example b) 0x6400) = (0x8040 :: 64 word)"
  by (simp_all add: objc2_class_dataPtr_def env_example_sel img_example_sel)

lemma ex_flag_bits:
  "bit (0x88000000 :: 32 word) 31" "bit (0x88000000 :: 32 word) 27"
  "bit (0x80000000 :: 32 word) 31" "\<not> bit (0x80000000 :: 32 word) 27" "\<not> bit (0 :: 32 word) 31"
  by (simp_all add: bit_iff_odd)

text \<open>
  The amended claim at the example: class A through a \<open>data_rw\<close> pointer with its low
  two bits set, 0x8003 (realized, copied, the address stored under 0x8000), the metaclass of
  A (not realized), and class B (realized, remapped inside \<open>__objc_const\<close>).
\<close>

theorem objc2_class_cache_miss_witness:
  "cache_wf cache_mapped \<and>
   objc2_class_dataPtr img_example
     \<lparr>class_32_isa = 0, class_32_data_rw = 0, class_64_isa = 0x6100, class_64_data_rw = 0x8003\<rparr>
     = (0x8000 :: 64 word) \<and>
   objc2_class_ro_length img_example = (72 :: 64 word) \<and>
   cache_lookup cache_mapped 0x8000 = 0 \<and>
   objc2_read_class_rw (env_example True) img_example 0x8000 = (PLCRASH_ESUCCESS, 0x88000000, 0xA000) \<and>
   bit (0x88000000 :: 32 word) 31 \<and> bit (0x88000000 :: 32 word) 27 \<and>
   fst (read_data_ro (env_example True) 0xA000 (objc2_class_ro_length img_example)) = PLCRASH_ESUCCESS \<and>
   pl_async_objc_parse_objc2_class (env_example True) img_example cache_mapped
     \<lparr>class_32_isa = 0, class_32_data_rw = 0, class_64_isa = 0x6100, class_64_data_rw = 0x8003\<rparr>
     False record_method []
     = Some (PLCRASH_ESUCCESS, cache_set True cache_mapped 0x8000 0xA000, methods_A) \<and>
   \<not> slot_occupied cache_mapped 0x8000 \<and> vm_allocate_success (env_example True) \<and>
   cache_lookup (cache_set True cache_mapped 0x8000 0xA000) 0x8000 = 0xA000 \<and>
   cache_lookup cache_mapped (objc2_class_dataPtr img_example (local_class (env_example True) 0x6100)) = 0 \<and>
   objc2_read_class_rw (env_example True) img_example
     (objc2_class_dataPtr img_example (local_class (env_example True) 0x6100))
     = (PLCRASH_ESUCCESS, 0, 0) \<and>
   \<not> bit (0 :: 32 word) 31 \<and>
   pl_async_objc_parse_objc2_class (env_example True) img_example cache_mapped
     (local_class (env_example True) 0x6100) True record_method []
     = Some (PLCRASH_ESUCCESS, cache_mapped, []) \<and>
   cache_lookup cache_mapped (objc2_class_dataPtr img_example (local_class (env_example True) 0x6200)) = 0 \<and>
   objc2_read_class_rw (env_example True) img_example
     (objc2_class_dataPtr img_example (local_class (env_example True) 0x6200))
     = (PLCRASH_ESUCCESS, 0x80000000, 0x3100) \<and>
   bit (0x80000000 :: 32 word) 31 \<and> \<not> bit (0x80000000 :: 32 word) 27 \<and>
   mobject_remap_address (env_example True) (objcConstMobj cache_mapped) 0x3100 0
     (objc2_class_ro_length img_example) = Some 0x3100 \<and>
   pl_async_objc_parse_objc2_class (env_example True) img_example cache_mapped
     (local_class (env_example True) 0x6200) False record_method []
     = Some (PLCRASH_ESUCCESS, cache_set True cache_mapped 0x8020 0x3100, methods_B)"
proof -
  let ?cls = "\<lparr>class_32_isa = 0, class_32_data_rw = 0, class_64_isa = 0x6100, class_64_data_rw = 0x8003\<rparr>"
  let ?meta = "local_class (env_example True) 0x6100"
  let ?B = "local_class (env_example True) 0x6200"
  have dp: "objc2_class_dataPtr img_example ?cls = (0x8000 :: 64 word)"
    by (simp add: objc2_class_dataPtr_def img_example_sel)
  have len: "objc2_class_ro_length img_example = (72 :: 64 word)"
    by (simp add: objc2_class_ro_length_def img_example_sel)
  have ro: "fst (read_data_ro (env_example True) 0xA000 (objc2_class_ro_length img_example)) = PLCRASH_ESUCCESS"
    by (simp add: objc2_class_ro_length_def env_example_sel img_example_sel)
  have sro: "snd (read_data_ro (env_example True) 0xA000 (objc2_class_ro_length img_example))
     = \<lparr>ro_32_name = 0, ro_32_baseMethods = 0, ro_64_name = 0x3F00, ro_64_baseMethods = 0x3200\<rparr>"
    by (simp add: objc2_class_ro_length_def env_example_sel img_example_sel)
  have vm: "vm_allocate_success (env_example True) = True"
    by (simp add: env_example_sel)
  have free: "\<not> slot_occupied cache_mapped 0x8000"
    by (simp add: slot_occupied_def cache_mapped_sel)
  have miss0: "cache_lookup cache_mapped 0x8000 = 0"
    by (rule lookup_mapped)
  have missA: "cache_lookup cache_mapped (objc2_class_dataPtr img_example ?cls) = 0"
    by (rule lookup_mapped)
  have rwA: "objc2_read_class_rw (env_example True) img_example (objc2_class_dataPtr img_example ?cls)
     = (PLCRASH_ESUCCESS, 0x88000000, 0xA000)"
    by (simp only: dp ex_read_rw)
  have missM: "cache_lookup cache_mapped (objc2_class_dataPtr img_example ?meta) = 0"
    by (rule lookup_mapped)
  have rwM: "objc2_read_class_rw (env_example True) img_example (objc2_class_dataPtr img_example ?meta)
     = (PLCRASH_ESUCCESS, 0, 0)"
    by (simp only: ex_dataPtr ex_read_rw)
  have missB: "cache_lookup cache_mapped (objc2_class_dataPtr img_example ?B) = 0"
    by (rule lookup_mapped)
  have rwB: "objc2_read_class_rw (env_example True) img_example (objc2_class_dataPtr img_example ?B)
     = (PLCRASH_ESUCCESS, 0x80000000, 0x3100)"
    by (simp only: ex_dataPtr ex_read_rw)
  have remapB: "mobject_remap_address (env_example True) (objcConstMobj cache_mapped) 0x3100 0
     (objc2_class_ro_length img_example) = Some 0x3100"
    by (simp add: env_example_sel img_example_sel cache_mapped_sel objc2_class_ro_length_def)
  have methodsA: "objc2_class_ro_methods (env_example True) img_example
       (cache_set True cache_mapped 0x8000 0xA000)
       (Some \<lparr>ro_32_name = 0, ro_32_baseMethods = 0, ro_64_name = 0x3F00, ro_64_baseMethods = 0x3200\<rparr>)
       False record_method []
     = Some (PLCRASH_ESUCCESS, cache_set True cache_mapped 0x8000 0xA000, methods_A)"
    using ex_class_A_methods [of "cache_set True cache_mapped 0x8000 0xA000" True False "[]"]
    by (simp add: cache_set_mobj cache_mapped_sel methods_A_def)
  have methodsB: "objc2_class_ro_methods (env_example True) img_example
       (cache_set True cache_mapped 0x8020 0x3100)
       (Some (local_data_ro (env_example True) 0x3100))
       False record_method []
     = Some (PLCRASH_ESUCCESS, cache_set True cache_mapped 0x8020 0x3100, methods_B)"
    using ex_class_B_methods [of "cache_set True cache_mapped 0x8020 0x3100" True False "[]"]
    by (simp add: cache_set_mobj cache_mapped_sel methods_B_def env_example_sel)
  note TA = objc2_class_cache_miss [OF cache_mapped_wf missA rwA, of False record_method "[]"]
  from TA
  have "bit (0x88000000 :: 32 word) 31 \<and> bit (0x88000000 :: 32 word) 27 \<longrightarrow>
      pl_async_objc_parse_objc2_class (env_example True) img_example cache_mapped ?cls False record_method []
        = (if fst (read_data_ro (env_example True) 0xA000 (objc2_class_ro_length img_example)) \<noteq> PLCRASH_ESUCCESS
           then Some (PLCRASH_ESUCCESS, cache_mapped, [])
           else objc2_class_ro_methods (env_example True) img_example
                  (cache_set (vm_allocate_success (env_example True)) cache_mapped
                     (objc2_class_dataPtr img_example ?cls) 0xA000)
                  (Some (snd (read_data_ro (env_example True) 0xA000 (objc2_class_ro_length img_example))))
                  False record_method [])"
    by (rule conjunct2 [THEN conjunct2, THEN conjunct2, THEN conjunct1])
  with ex_flag_bits(1,2)
  have A: "pl_async_objc_parse_objc2_class (env_example True) img_example cache_mapped ?cls False record_method []
     = Some (PLCRASH_ESUCCESS, cache_set True cache_mapped 0x8000 0xA000, methods_A)"
    by (simp only: ro sro vm dp methodsA simp_thms if_False if_True)
  have pre: "bit (0x88000000 :: 32 word) 31 \<and>
      (if bit (0x88000000 :: 32 word) 27
       then fst (read_data_ro (env_example True) 0xA000 (objc2_class_ro_length img_example)) = PLCRASH_ESUCCESS
       else mobject_remap_address (env_example True) (objcConstMobj cache_mapped) 0xA000 0
              (objc2_class_ro_length img_example) \<noteq> None) \<and>
      pl_async_objc_parse_objc2_class (env_example True) img_example cache_mapped ?cls False record_method []
        = Some (PLCRASH_ESUCCESS, cache_set True cache_mapped 0x8000 0xA000, methods_A)"
    by (simp only: ex_flag_bits ro A if_True simp_thms)
  from TA [THEN conjunct2, THEN conjunct2, THEN conjunct2, THEN conjunct2, THEN conjunct2,
      THEN spec, THEN spec, THEN spec,
      THEN mp, OF pre]
  have lk: "cache_lookup (cache_set True cache_mapped 0x8000 0xA000) 0x8000 = 0xA000"
    by (simp add: dp vm free cache_mapped_sel)
  from objc2_class_cache_miss [OF cache_mapped_wf missM rwM, of True record_method "[]"]
  have "\<not> bit (0 :: 32 word) 31 \<longrightarrow>
      pl_async_objc_parse_objc2_class (env_example True) img_example cache_mapped ?meta True record_method []
        = Some (PLCRASH_ESUCCESS, cache_mapped, [])"
    by (rule conjunct2 [THEN conjunct2, THEN conjunct1])
  with ex_flag_bits(5)
  have M: "pl_async_objc_parse_objc2_class (env_example True) img_example cache_mapped ?meta True record_method []
        = Some (PLCRASH_ESUCCESS, cache_mapped, [])"
    by (rule rev_mp)
  from objc2_class_cache_miss [OF cache_mapped_wf missB rwB, of False record_method "[]"]
  have "bit (0x80000000 :: 32 word) 31 \<and> \<not> bit (0x80000000 :: 32 word) 27 \<longrightarrow>
      pl_async_objc_parse_objc2_class (env_example True) img_example cache_mapped ?B False record_method []
        = (case mobject_remap_address (env_example True) (objcConstMobj cache_mapped) 0x3100 0
                        (objc2_class_ro_length img_example) of
                   None \<Rightarrow> Some (PLCRASH_ESUCCESS, cache_mapped, [])
                 | Some p \<Rightarrow>
                     objc2_class_ro_methods (env_example True) img_example
                       (cache_set (vm_allocate_success (env_example True)) cache_mapped
                          (objc2_class_dataPtr img_example ?B) 0x3100)
                       (Some (local_data_ro (env_example True) p)) False record_method [])"
    by (rule conjunct2 [THEN conjunct2, THEN conjunct2, THEN conjunct2, THEN conjunct1])
  with ex_flag_bits(3,4)
  have B: "pl_async_objc_parse_objc2_class (env_example True) img_example cache_mapped ?B False record_method []
     = Some (PLCRASH_ESUCCESS, cache_set True cache_mapped 0x8020 0x3100, methods_B)"
    by (simp only: remapB vm ex_dataPtr methodsB simp_thms option.case)
  show ?thesis
    by (intro conjI cache_mapped_wf dp len miss0 ex_read_rw(1) missM rwM missB rwB ex_flag_bits ro A M B lk
        free remapB vm [THEN iffD2, OF TrueI])
qed

lemma cache_collision_sel:
  "objcConstMobj cache_collision = \<lparr>task_address = 0x3000, mobj_length = 0x1000\<rparr>"
  "objcDataMobj cache_collision = \<lparr>task_address = 0x6000, mobj_length = 0x1000\<rparr>"
  "classCacheSize cache_collision = 1024"
  "classCacheKeys cache_collision = Some ((replicate 1024 0)[0 := 0x9000])"
  "classCacheValues cache_collision = Some ((replicate 1024 0)[0 := 0xB000])"
  by (simp_all add: cache_collision_def cache_set_def cache_store_def cache_index_def Let_def cache_mapped_sel)

lemma cache_collision_index: "cache_index cache_collision 0x8000 = 0"
  by (simp add: cache_index_def cache_collision_sel)

lemma cache_collision_occupied: "slot_occupied cache_collision 0x8000"
  by (simp add: slot_occupied_def cache_collision_sel cache_collision_index)

lemma cache_collision_lookup: "cache_lookup cache_collision 0x8000 = 0"
  by (simp add: cache_lookup_def cache_collision_sel cache_collision_index Let_def)

text \<open>
  Claim C4 as stated fails: class A is read on a cache miss, it is realized, its \<open>class_ro\<close>
  data is copied and its methods are handed to the callback; the bucket of its key 0x8000
  holds the key 0x9000, so the \<open>data_ro\<close> address 0xA000 is not stored: the context object
  is unchanged and the lookup of 0x8000 does not return 0xA000.
\<close>

theorem objc2_class_collision_not_stored:
  "classCacheKeys cache_collision = Some ((replicate 1024 0)[0 := 0x9000]) \<and>
   cache_index cache_collision 0x8000 = 0 \<and>
   objc2_class_dataPtr img_example (local_class (env_example True) 0x6000) = (0x8000 :: 64 word) \<and>
   cache_lookup cache_collision 0x8000 = 0 \<and>
   objc2_read_class_rw (env_example True) img_example 0x8000 = (PLCRASH_ESUCCESS, 0x88000000, 0xA000) \<and>
   bit (0x88000000 :: 32 word) 31 \<and> bit (0x88000000 :: 32 word) 27 \<and>
   fst (read_data_ro (env_example True) 0xA000 (objc2_class_ro_length img_example)) = PLCRASH_ESUCCESS \<and>
   pl_async_objc_parse_objc2_class (env_example True) img_example cache_collision
     (local_class (env_example True) 0x6000) False record_method []
     = Some (PLCRASH_ESUCCESS, cache_collision, methods_A) \<and>
   cache_lookup cache_collision 0x8000 \<noteq> 0xA000"
proof -
  have ro: "fst (read_data_ro (env_example True) 0xA000 (objc2_class_ro_length img_example)) = PLCRASH_ESUCCESS"
    by (simp add: objc2_class_ro_length_def env_example_sel img_example_sel)
  have same: "cache_set True cache_collision 0x8000 0xA000 = cache_collision"
    using cache_collision_occupied by (rule cache_set_occupied)
  have A: "pl_async_objc_parse_objc2_class (env_example True) img_example cache_collision
     (local_class (env_example True) 0x6000) False record_method []
     = Some (PLCRASH_ESUCCESS, cache_collision, methods_A)"
    using ex_class_A_miss [OF cache_collision_lookup cache_collision_sel(1), of False "[]"]
    by (simp add: same env_example_sel methods_A_def)
  have ne: "cache_lookup cache_collision 0x8000 \<noteq> 0xA000"
    by (simp add: cache_collision_lookup)
  show ?thesis
    by (intro conjI cache_collision_sel(4) cache_collision_index ex_dataPtr(1) cache_collision_lookup
        ex_read_rw(1) ex_flag_bits(1,2) ro A ne)
qed












lemma ex_imps_le:
  "{i \<in> method_imp ` set (methods_A @ methods_B). i \<le> 0x1250} = {0x1100, 0x1200}"
  "{i \<in> method_imp ` set (methods_A @ methods_B). i \<le> 0x1050} = {}"
  by (auto simp: methods_A_def methods_B_def method_imp_def)

lemma ex_best:
  "Max (insert 0 {i \<in> method_imp ` set (methods_A @ methods_B). i \<le> (0x1250 :: 64 word)}) = 0x1200"
  "Max (insert 0 {i \<in> method_imp ` set (methods_A @ methods_B). i \<le> (0x1050 :: 64 word)}) = 0"
  by (simp_all only: ex_imps_le) simp_all


lemma ex_first_with_imp:
  "first_with_imp 0x1200 (methods_A @ methods_B) = Some (False, ''ClassA'', ''baz'', (0x1200 :: 64 word))"
  by (simp add: methods_A_def methods_B_def method_imp_def)

text \<open>Claim C10 at the example: \<open>baz\<close> of class A and \<open>foo:\<close> of class B share the IMP
  0x1200; the callback is invoked for \<open>baz\<close>, the first, only.\<close>

theorem find_method_call_pass_witness:
  "plcrash_async_objc_parse (env_example True) img_example (Some cache_fresh)
     pl_async_objc_find_method_search_callback \<lparr>searchIMP = 0x1250, bestIMP = 0\<rparr>
     = Some (PLCRASH_ESUCCESS, Some cache_parsed, \<lparr>searchIMP = 0x1250, bestIMP = 0x1200\<rparr>,
             [ObjC1_module_info, ObjC2_data_section]) \<and>
   bestIMP \<lparr>searchIMP = 0x1250, bestIMP = (0x1200 :: 64 word)\<rparr> \<noteq> 0 \<and>
   plcrash_async_objc_parse (env_example True) img_example (Some cache_parsed) record_method []
     = Some (PLCRASH_ESUCCESS, Some cache_parsed, methods_A @ methods_B, [ObjC2_data_section]) \<and>
   first_with_imp 0x1200 (methods_A @ methods_B) = Some (False, ''ClassA'', ''baz'', 0x1200) \<and>
   plcrash_async_objc_find_method (env_example True) img_example (Some cache_fresh) 0x1250
     record_method [] = Some (PLCRASH_ESUCCESS, Some cache_parsed, [(False, ''ClassA'', ''baz'', 0x1200)])"
proof -
  have e: "plcrash_async_objc_parse (env_example True) img_example (Some cache_fresh) record_method []
     = Some (PLCRASH_ESUCCESS, Some cache_parsed, methods_A @ methods_B,
             [ObjC1_module_info, ObjC2_data_section])"
    using ex_parse_first [of "[]"] by simp
  have s: "plcrash_async_objc_parse (env_example True) img_example (Some cache_fresh)
     pl_async_objc_find_method_search_callback \<lparr>searchIMP = 0x1250, bestIMP = 0\<rparr>
     = Some (PLCRASH_ESUCCESS, Some cache_parsed, \<lparr>searchIMP = 0x1250, bestIMP = 0x1200\<rparr>,
             [ObjC1_module_info, ObjC2_data_section])"
    using parse_emits [OF e, of pl_async_objc_find_method_search_callback "\<lparr>searchIMP = 0x1250, bestIMP = 0\<rparr>"]
    by (simp only: search_fold ex_best)
  have n: "bestIMP \<lparr>searchIMP = 0x1250, bestIMP = (0x1200 :: 64 word)\<rparr> \<noteq> 0"
    by simp
  have e2: "plcrash_async_objc_parse (env_example True) img_example (Some cache_parsed) record_method []
     = Some (PLCRASH_ESUCCESS, Some cache_parsed, methods_A @ methods_B, [ObjC2_data_section])"
    using ex_parse_second [of True "[]"] by simp
  from find_method_call_pass [OF s n e2, of record_method "[]"]
  have r: "plcrash_async_objc_find_method (env_example True) img_example (Some cache_fresh) 0x1250
     record_method [] = Some (PLCRASH_ESUCCESS, Some cache_parsed, [(False, ''ClassA'', ''baz'', 0x1200)])"
    by (simp add: ex_first_with_imp invoke_def record_method_def)
  show ?thesis by (intro conjI s n e2 ex_first_with_imp r)
qed







end
